theory Spec2Isabelle
  imports Main
begin

unbundle bit_operations_syntax

section \<open>Settings and constants\<close>

text \<open>
  The driver and the serializer import their constants from \<^verbatim>\<open>settings.js\<close> and
  \<^verbatim>\<open>constants.js\<close>. Neither file is among the sources, so the constants are a
  parameter of every definition below: a record with one field per imported name.
\<close>

record settings =
  BLOCK_SIZE :: int
  BLOCK_COUNT :: int
  INODE_SIZE :: int
  INODE_INO_SIZE :: int
  INODE_TYPE_SIZE :: int
  INODE_REFS_SIZE :: int
  INODE_SIZE_SIZE :: int
  INODE_STRAIGHT_LINKS_COUNT :: int
  ADDRESS_SIZE :: int
  N_SIZE :: int
  DENTRY_SIZE :: int
  MAX_SYMLINK_DEPTH :: int
  NAN_BLOCK_ADDRESS :: int
  ZERO_BLOCK_ADDRESS :: int
  ADDRESSES_IN_BLOCK :: int

section \<open>JavaScript values\<close>

text \<open>
  A JavaScript number that the code computes is an integer, \<^verbatim>\<open>NaN\<close> or
  \<^verbatim>\<open>undefined\<close> (what \<^verbatim>\<open>pop()\<close> returns on an empty array, what a function
  returns when it falls off its end, what an index past the end of an array reads).
  \<open>Hole\<close> is an empty slot of a sparse array: it reads as \<^verbatim>\<open>undefined\<close> and
  \<^verbatim>\<open>flatMap\<close> skips it.
\<close>

datatype jsnum = Num int | NaN | Undefined | Hole

type_synonym byte = int

datatype error =
    InvalidArgument
  | InvalidPath
  | FileAlreadyExist
  | DescriptorNotFound
  | OutOfBounds
  | NotEnoughMemory
  | Error string
  | RangeError
  | TypeError
  | ReferenceError
  | ModelLimit

text \<open>\<^verbatim>\<open>ToInt32\<close>, and the shifts and the byte store built on it.\<close>

definition toInt32 :: "int \<Rightarrow> int" where
  "toInt32 x = (x + 2147483648) mod 4294967296 - 2147483648"

fun jsToInt32 :: "jsnum \<Rightarrow> int" where
  "jsToInt32 (Num x) = toInt32 x"
| "jsToInt32 _ = 0"

definition shl :: "int \<Rightarrow> nat \<Rightarrow> int" where
  "shl x n = toInt32 (toInt32 x * 2 ^ n)"

definition sar :: "int \<Rightarrow> nat \<Rightarrow> int" where
  "sar x n = toInt32 x div 2 ^ n"

definition toUint8 :: "int \<Rightarrow> byte" where
  "toUint8 x = x mod 256"

text \<open>
  Relative indices of \<^verbatim>\<open>subarray\<close>, \<^verbatim>\<open>slice\<close> and \<^verbatim>\<open>substring\<close>: a negative
  index of a typed array counts from the end, and every index is clamped to the length.
\<close>

definition relIndex :: "int \<Rightarrow> int \<Rightarrow> int" where
  "relIndex len i = (if i < 0 then max (len + i) 0 else min i len)"

definition subarray :: "'a list \<Rightarrow> int \<Rightarrow> int \<Rightarrow> 'a list" where
  "subarray xs b e =
     (let b' = relIndex (int (length xs)) b; e' = relIndex (int (length xs)) e
      in take (nat (e' - b')) (drop (nat b') xs))"

definition subarrayFrom :: "'a list \<Rightarrow> int \<Rightarrow> 'a list" where
  "subarrayFrom xs b = drop (nat (relIndex (int (length xs)) b)) xs"

definition substring :: "string \<Rightarrow> int \<Rightarrow> int \<Rightarrow> string" where
  "substring s b e =
     (let b' = min (nat (max b 0)) (length s); e' = min (nat (max e 0)) (length s)
      in take (max b' e' - min b' e') (drop (min b' e') s))"

text \<open>
  \<^verbatim>\<open>target.set(source, offset)\<close> on a typed array throws a RangeError when the source
  does not fit, also when the source is empty and the offset is past the end.
\<close>

definition typedSet :: "byte list \<Rightarrow> byte list \<Rightarrow> int \<Rightarrow> error + byte list" where
  "typedSet target source off =
     (if off < 0 \<or> int (length source) + off > int (length target) then Inl RangeError
      else Inr (take (nat off) target @ source @ drop (nat off + length source) target))"

text \<open>
  File names are modelled as ASCII strings: one character is one UTF-16 code unit and one
  UTF-8 byte, so \<^verbatim>\<open>TextEncoder\<close> and \<^verbatim>\<open>TextDecoder\<close> map characters to their codes
  and back.
\<close>

definition encode :: "string \<Rightarrow> byte list" where
  "encode s = map of_char s"

definition decode :: "byte list \<Rightarrow> string" where
  "decode bs = map char_of bs"

section \<open>The byte codec (serializer.js)\<close>

definition serializeInt32 :: "jsnum \<Rightarrow> byte list" where
  "serializeInt32 v =
     (let value = jsToInt32 v
      in [toUint8 (sar value 24), toUint8 (sar (shl value 8) 24),
          toUint8 (sar (shl value 16) 24), toUint8 (sar (shl value 24) 24)])"

text \<open>
  \<^verbatim>\<open>bytes[3]\<close> is \<^verbatim>\<open>undefined\<close> when fewer than four bytes are given, and a
  number plus \<^verbatim>\<open>undefined\<close> is \<^verbatim>\<open>NaN\<close>. The sum itself is not truncated to 32 bits.
\<close>

definition deserializeInt32 :: "byte list \<Rightarrow> jsnum" where
  "deserializeInt32 bytes =
     (if length bytes < 4 then NaN
      else Num (shl (bytes ! 0) 24 + shl (bytes ! 1) 16 + shl (bytes ! 2) 8 + bytes ! 3))"

definition serializeInt16 :: "jsnum \<Rightarrow> byte list" where
  "serializeInt16 v =
     (let value = jsToInt32 v in [toUint8 (sar value 8), toUint8 (sar (shl value 8) 8)])"

definition deserializeInt16 :: "byte list \<Rightarrow> jsnum" where
  "deserializeInt16 bytes =
     (if length bytes < 2 then NaN else Num (shl (bytes ! 0) 8 + bytes ! 1))"

definition serializeAddress :: "jsnum \<Rightarrow> byte list" where
  "serializeAddress address = serializeInt32 address"

definition deserializeAddress :: "byte list \<Rightarrow> jsnum" where
  "deserializeAddress bytes = deserializeInt32 bytes"

subsection \<open>Directory entries\<close>

record Dentry =
  fileName :: string
  dentryIno :: jsnum

definition serializeDentry :: "settings \<Rightarrow> Dentry \<Rightarrow> error + byte list" where
  "serializeDentry c dentry =
     (let buff = replicate (nat (DENTRY_SIZE c)) 0;
          filenameBytes = encode (substring (fileName dentry) 0 (DENTRY_SIZE c - N_SIZE c))
      in case typedSet buff filenameBytes 0 of
           Inl e \<Rightarrow> Inl e
         | Inr buff1 \<Rightarrow> typedSet buff1 (serializeInt32 (dentryIno dentry)) (DENTRY_SIZE c - N_SIZE c))"

text \<open>
  \<^verbatim>\<open>indexOf(0)\<close> is \<open>-1\<close> when the name field holds no zero byte, and
  \<^verbatim>\<open>subarray(0, -1)\<close> then ends one byte before the end of the field.
\<close>

fun indexOfFrom :: "byte list \<Rightarrow> byte \<Rightarrow> int \<Rightarrow> int" where
  "indexOfFrom [] b i = -1"
| "indexOfFrom (x # xs) b i = (if x = b then i else indexOfFrom xs b (i + 1))"

definition indexOf :: "byte list \<Rightarrow> byte \<Rightarrow> int" where
  "indexOf bs b = indexOfFrom bs b 0"

definition deserializeDentry :: "settings \<Rightarrow> byte list \<Rightarrow> Dentry" where
  "deserializeDentry c bytes =
     (let filenameBytes = subarray bytes 0 (DENTRY_SIZE c - N_SIZE c);
          filename = decode (subarray filenameBytes 0 (indexOf filenameBytes 0));
          inoBytes = subarrayFrom bytes (DENTRY_SIZE c - N_SIZE c);
          ino = deserializeInt32 inoBytes
      in \<lparr>fileName = filename, dentryIno = ino\<rparr>)"

definition serializeDentries :: "settings \<Rightarrow> Dentry list \<Rightarrow> error + byte list" where
  "serializeDentries c dentries =
     foldl (\<lambda>acc dentry.
              case acc of
                Inl e \<Rightarrow> Inl e
              | Inr buff \<Rightarrow>
                  (case serializeDentry c dentry of Inl e \<Rightarrow> Inl e | Inr bytes \<Rightarrow> Inr (buff @ bytes)))
           (Inr []) dentries"

text \<open>\<^verbatim>\<open>Math.ceil(a / b)\<close> and the remainder \<^verbatim>\<open>a % b\<close> (sign of the dividend), for \<open>b > 0\<close>.\<close>

definition ceilDiv :: "int \<Rightarrow> int \<Rightarrow> int" where
  "ceilDiv a b = - ((- a) div b)"

definition jsRem :: "int \<Rightarrow> int \<Rightarrow> int" where
  "jsRem a b = (if 0 \<le> a then a mod \<bar>b\<bar> else - ((- a) mod \<bar>b\<bar>))"

definition deserializeDentries :: "settings \<Rightarrow> byte list \<Rightarrow> Dentry list" where
  "deserializeDentries c bytes =
     map (\<lambda>k. deserializeDentry c
                (subarray bytes (int k * DENTRY_SIZE c) (int k * DENTRY_SIZE c + DENTRY_SIZE c)))
         [0..<nat (ceilDiv (int (length bytes)) (DENTRY_SIZE c))]"

subsection \<open>File descriptors\<close>

datatype FileType = UNUSED | REGULAR | DIRECTORY | SYMLINK

record INode =
  ino :: int
  type :: FileType
  size' :: int
  refs :: int
  straightLinks :: "jsnum list"
  singleIndirect :: jsnum
  doubleIndirect :: jsnum

definition serializeFileType :: "FileType \<Rightarrow> byte list" where
  "serializeFileType t =
     (case t of REGULAR \<Rightarrow> [0, 1] | DIRECTORY \<Rightarrow> [0, 2] | SYMLINK \<Rightarrow> [0, 3] | UNUSED \<Rightarrow> [0, 0])"

text \<open>\<^verbatim>\<open>bytes[i] == v\<close>: false when the index is past the end.\<close>

definition byteIs :: "byte list \<Rightarrow> nat \<Rightarrow> int \<Rightarrow> bool" where
  "byteIs bytes i v = (i < length bytes \<and> bytes ! i = v)"

definition deserializeFileType :: "byte list \<Rightarrow> FileType" where
  "deserializeFileType bytes =
     (if byteIs bytes 0 0 \<and> byteIs bytes 1 1 then REGULAR
      else if byteIs bytes 0 0 \<and> byteIs bytes 1 2 then DIRECTORY
      else if byteIs bytes 0 0 \<and> byteIs bytes 1 3 then SYMLINK
      else UNUSED)"

text \<open>
  \<^verbatim>\<open>buff.set([...], 0)\<close> throws a RangeError when the fields together are longer than
  \<open>INODE_SIZE\<close>. \<^verbatim>\<open>flatMap\<close> does not call its function on an empty slot.
\<close>

definition serializeInode :: "settings \<Rightarrow> INode \<Rightarrow> error + byte list" where
  "serializeInode c inode =
     (let buff = replicate (nat (INODE_SIZE c)) 0;
          inoBytes = serializeInt32 (Num (ino inode));
          typeBytes = serializeFileType (type inode);
          refsBytes = serializeInt16 (Num (refs inode));
          sizeBytes = serializeInt32 (Num (size' inode));
          straightLinksBytes =
            concat (map (\<lambda>link. case link of Hole \<Rightarrow> [] | _ \<Rightarrow> serializeAddress link)
                        (straightLinks inode));
          singleIndirectBytes = serializeAddress (singleIndirect inode);
          doubleIndirectBytes = serializeAddress (doubleIndirect inode)
      in typedSet buff
           (inoBytes @ typeBytes @ refsBytes @ sizeBytes @ straightLinksBytes @
            singleIndirectBytes @ doubleIndirectBytes) 0)"

text \<open>
  The single and the double indirect address are both read at the same offset, as the
  source does. The record of the model keeps \<open>ino\<close>, \<open>refs\<close> and \<open>size\<close> as integers: when
  fewer bytes are given than these fields need, JavaScript decodes \<^verbatim>\<open>NaN\<close> and the model
  returns \<open>None\<close>.
\<close>

definition deserializeInode :: "settings \<Rightarrow> byte list \<Rightarrow> INode option" where
  "deserializeInode c bytes =
     (let offset0 = 0;
          inoBytes = subarray bytes offset0 (INODE_INO_SIZE c);
          offset1 = offset0 + INODE_INO_SIZE c;
          typeBytes = subarray bytes offset1 (offset1 + INODE_TYPE_SIZE c);
          offset2 = offset1 + INODE_TYPE_SIZE c;
          refsBytes = subarray bytes offset2 (offset2 + INODE_REFS_SIZE c);
          offset3 = offset2 + INODE_REFS_SIZE c;
          sizeBytes = subarray bytes offset3 (offset3 + INODE_SIZE_SIZE c);
          offset4 = offset3 + INODE_SIZE_SIZE c;
          straightLinksBytes =
            subarray bytes offset4 (offset4 + ADDRESS_SIZE c * INODE_STRAIGHT_LINKS_COUNT c);
          offset5 = offset4 + ADDRESS_SIZE c * INODE_STRAIGHT_LINKS_COUNT c;
          singleIndirectBytes = subarray bytes offset5 (offset5 + ADDRESS_SIZE c);
          doubleIndirectBytes = subarray bytes offset5 (offset5 + ADDRESS_SIZE c);
          links =
            map (\<lambda>linkIndex.
                   deserializeAddress
                     (subarray straightLinksBytes (int linkIndex * ADDRESS_SIZE c)
                        ((int linkIndex + 1) * ADDRESS_SIZE c)))
                [0..<nat (INODE_STRAIGHT_LINKS_COUNT c)]
      in case (deserializeInt32 inoBytes, deserializeInt16 refsBytes, deserializeInt32 sizeBytes) of
           (Num i, Num r, Num s) \<Rightarrow>
             Some \<lparr>ino = i, type = deserializeFileType typeBytes, size' = s, refs = r,
                   straightLinks = links,
                   singleIndirect = deserializeAddress singleIndirectBytes,
                   doubleIndirect = deserializeAddress doubleIndirectBytes\<rparr>
         | _ \<Rightarrow> None)"

text \<open>
  The loop of \<^verbatim>\<open>deserializeAddresses\<close> steps its \<open>offset\<close> by \<open>ADDRESS_SIZE\<close> and then
  multiplies it by \<open>ADDRESS_SIZE\<close> again: entry \<open>j\<close> of the result is decoded from the bytes
  at \<open>j * ADDRESS_SIZE * ADDRESS_SIZE\<close>, and is \<^verbatim>\<open>NaN\<close> once that is past the end.
\<close>

definition deserializeAddresses :: "settings \<Rightarrow> byte list \<Rightarrow> jsnum list" where
  "deserializeAddresses c bytes =
     map (\<lambda>j. let offset = int j * ADDRESS_SIZE c
              in deserializeAddress
                   (subarray bytes (offset * ADDRESS_SIZE c) ((offset + 1) * ADDRESS_SIZE c)))
         [0..<nat (ceilDiv (int (length bytes)) (ADDRESS_SIZE c))]"

text \<open>
  \<^verbatim>\<open>serializeAddresses\<close> calls \<^verbatim>\<open>Uint8Array(...)\<close> without \<^verbatim>\<open>new\<close>, which
  throws a TypeError whatever the argument.
\<close>

definition serializeAddresses :: "settings \<Rightarrow> jsnum list \<Rightarrow> error + byte list" where
  "serializeAddresses c addresses = Inl TypeError"

section \<open>The block device (device.js)\<close>

text \<open>
  The device is \<^verbatim>\<open>blockCount * blockSize\<close> bytes, all zero when it is created. The model
  keeps them block by block, in an association list from the block address to the bytes
  of the block; a block that is not listed is all zeros.
\<close>

record Device =
  blockSize :: int
  blockCount :: int
  memory :: "(int \<times> byte list) list"

definition newDevice :: "int \<Rightarrow> int \<Rightarrow> Device" where
  "newDevice bs bc = \<lparr>blockSize = bs, blockCount = bc, memory = []\<rparr>"

definition blockOf :: "Device \<Rightarrow> int \<Rightarrow> byte list" where
  "blockOf d k =
     (case map_of (memory d) k of Some b \<Rightarrow> b | None \<Rightarrow> replicate (nat (blockSize d)) 0)"

fun storeBlock :: "(int \<times> byte list) list \<Rightarrow> int \<Rightarrow> byte list \<Rightarrow> (int \<times> byte list) list" where
  "storeBlock [] k b = [(k, b)]"
| "storeBlock ((k', b') # m) k b = (if k' = k then (k, b) # m else (k', b') # storeBlock m k b)"

text \<open>
  \<^verbatim>\<open>memory.set(bytes, k * blockSize)\<close>: the bytes replace the start of block \<open>k\<close>, and
  go on into the following blocks when there are more of them than a block holds.
\<close>

function storeBytes ::
  "int \<Rightarrow> (int \<times> byte list) list \<Rightarrow> int \<Rightarrow> byte list \<Rightarrow> (int \<times> byte list) list" where
  "storeBytes bs mem k bytes =
     (if bytes = [] \<or> bs \<le> 0 then mem
      else let chunk = take (nat bs) bytes;
               old = (case map_of mem k of Some b \<Rightarrow> b | None \<Rightarrow> replicate (nat bs) 0)
           in storeBytes bs (storeBlock mem k (chunk @ drop (length chunk) old)) (k + 1)
                (drop (nat bs) bytes))"
  by pat_completeness auto
termination
  by (relation "measure (\<lambda>(bs, mem, k, bytes). length bytes)") auto

text \<open>
  Computations that change the device and may throw: the result is the exception or the
  value, together with the device as the computation left it (a JavaScript exception
  does not undo the writes made before it). Every definition of such a computation
  names the device as its last argument.
\<close>

type_synonym ('s, 'a) exn = "'s \<Rightarrow> (error + 'a) \<times> 's"

definition ret :: "'a \<Rightarrow> ('s, 'a) exn" where
  "ret x s = (Inr x, s)"

definition throw :: "error \<Rightarrow> ('s, 'a) exn" where
  "throw e s = (Inl e, s)"

definition bindM :: "('s, 'a) exn \<Rightarrow> ('a \<Rightarrow> ('s, 'b) exn) \<Rightarrow> ('s, 'b) exn" where
  "bindM m f s = (case m s of (Inl e, s1) \<Rightarrow> (Inl e, s1) | (Inr x, s1) \<Rightarrow> f x s1)"

definition thenM :: "('s, unit) exn \<Rightarrow> ('s, 'b) exn \<Rightarrow> ('s, 'b) exn" where
  "thenM m k s = (case m s of (Inl e, s1) \<Rightarrow> (Inl e, s1) | (Inr u, s1) \<Rightarrow> k s1)"

definition liftE :: "error + 'a \<Rightarrow> ('s, 'a) exn" where
  "liftE r s = (r, s)"

definition gets :: "('s \<Rightarrow> 'a) \<Rightarrow> ('s, 'a) exn" where
  "gets f s = (Inr (f s), s)"

fun forM :: "'a list \<Rightarrow> ('a \<Rightarrow> ('s, unit) exn) \<Rightarrow> ('s, unit) exn" where
  "forM [] f s = (Inr (), s)"
| "forM (x # xs) f s =
     (case f x s of (Inl e, s1) \<Rightarrow> (Inl e, s1) | (Inr u, s1) \<Rightarrow> forM xs f s1)"

text \<open>
  \<^verbatim>\<open>readBlock\<close> returns a view of the device memory, not a copy: what is written through
  the view is written to the device. A view is the address of the block it covers, or
  \<open>None\<close> when it is empty: \<^verbatim>\<open>subarray\<close> clamps its bounds (an address past the end, or
  \<^verbatim>\<open>NaN\<close>, gives an empty view) and counts negative bounds from the end.
\<close>

definition readBlock :: "jsnum \<Rightarrow> Device \<Rightarrow> int option" where
  "readBlock blockAddress d =
     (case blockAddress of
        Num a \<Rightarrow>
          (let len = blockCount d * blockSize d;
               b = relIndex len (a * blockSize d);
               e = relIndex len ((a + 1) * blockSize d)
           in if b < e then Some (b div blockSize d) else None)
      | _ \<Rightarrow> None)"

definition viewBytes :: "int option \<Rightarrow> Device \<Rightarrow> byte list" where
  "viewBytes view d = (case view of None \<Rightarrow> [] | Some k \<Rightarrow> blockOf d k)"

text \<open>The bytes of a block, read through a fresh view.\<close>

definition blockBytes :: "jsnum \<Rightarrow> Device \<Rightarrow> byte list" where
  "blockBytes blockAddress d = viewBytes (readBlock blockAddress d) d"

text \<open>\<^verbatim>\<open>view.set(source, off)\<close>.\<close>

definition viewSet :: "int option \<Rightarrow> byte list \<Rightarrow> int \<Rightarrow> (Device, unit) exn" where
  "viewSet view source off d =
     (case typedSet (viewBytes view d) source off of
        Inl e \<Rightarrow> (Inl e, d)
      | Inr b \<Rightarrow>
          (case view of
             None \<Rightarrow> (Inr (), d)
           | Some k \<Rightarrow> (Inr (), d\<lparr>memory := storeBlock (memory d) k b\<rparr>)))"

text \<open>
  \<^verbatim>\<open>writeBlock\<close> is \<^verbatim>\<open>memory.set(block, blockAddress * blockSize)\<close>: the offset
  \<^verbatim>\<open>NaN\<close> counts as 0, and a negative offset or a block that does not fit throws a
  RangeError.
\<close>

definition writeBlock :: "jsnum \<Rightarrow> byte list \<Rightarrow> (Device, unit) exn" where
  "writeBlock blockAddress block d =
     (let off = (case blockAddress of Num a \<Rightarrow> a * blockSize d | _ \<Rightarrow> 0)
      in if off < 0 \<or> int (length block) + off > blockCount d * blockSize d
         then (Inl RangeError, d)
         else (Inr (),
               d\<lparr>memory := storeBytes (blockSize d) (memory d) (off div blockSize d) block\<rparr>))"

text \<open>\<^verbatim>\<open>writeBlock(blockAddress, view)\<close>: the bytes are those the view shows now.\<close>

definition writeView :: "jsnum \<Rightarrow> int option \<Rightarrow> (Device, unit) exn" where
  "writeView blockAddress view d = writeBlock blockAddress (viewBytes view d) d"

section \<open>The driver (driver.js)\<close>

text \<open>
  A private method \<^verbatim>\<open>_name\<close> of the class is \<open>name\<close> here, and \<open>name'\<close> where the class
  also has a public method \<^verbatim>\<open>name\<close>. The methods below read and write
  \<^verbatim>\<open>this.device\<close> only, so they are computations on the device.
\<close>

subsection \<open>The superblock: N and the bitmap\<close>

definition setN :: "settings \<Rightarrow> int \<Rightarrow> (Device, unit) exn" where
  "setN c n d =
     (let nAddress = ceilDiv (BLOCK_COUNT c) 8;
          nBlockAddress = nAddress div BLOCK_SIZE c;
          nAddressInBlock = jsRem nAddress (BLOCK_SIZE c);
          nBytes = serializeInt32 (Num n);
          block = readBlock (Num nBlockAddress) d
      in thenM (viewSet block nBytes nAddressInBlock)
           (writeView (Num nBlockAddress) block) d)"

definition getN :: "settings \<Rightarrow> Device \<Rightarrow> jsnum" where
  "getN c d =
     (let nAddress = ceilDiv (BLOCK_COUNT c) 8;
          nBlockAddress = nAddress div BLOCK_SIZE c;
          nAddressInBlock = jsRem nAddress (BLOCK_SIZE c);
          nBytes = subarray (blockBytes (Num nBlockAddress) d) nAddressInBlock
                     (nAddressInBlock + N_SIZE c)
      in deserializeInt32 nBytes)"

text \<open>
  \<^verbatim>\<open>block[i] = f(block[i])\<close> on a view: nothing is stored when \<open>i\<close> is not an index of
  the view. The shift count of \<^verbatim>\<open>1 << k\<close> is \<open>k\<close> modulo 32.
\<close>

definition viewUpdateByte :: "int option \<Rightarrow> int \<Rightarrow> (byte \<Rightarrow> int) \<Rightarrow> (Device, unit) exn" where
  "viewUpdateByte view i f d =
     (case view of
        None \<Rightarrow> (Inr (), d)
      | Some k \<Rightarrow>
          (let bytes = blockOf d k
           in if 0 \<le> i \<and> i < int (length bytes)
              then (Inr (),
                    d\<lparr>memory := storeBlock (memory d) k (bytes[nat i := toUint8 (f (bytes ! nat i))])\<rparr>)
              else (Inr (), d)))"

definition bitMask :: "int \<Rightarrow> int" where
  "bitMask bitIndex = shl 1 (nat (bitIndex mod 32))"

definition setBit :: "int \<Rightarrow> byte \<Rightarrow> int" where
  "setBit bitIndex b = b OR bitMask bitIndex"

definition clearBit :: "int \<Rightarrow> byte \<Rightarrow> int" where
  "clearBit bitIndex b = b AND NOT (bitMask bitIndex)"

text \<open>
  For a block index that is \<^verbatim>\<open>undefined\<close> every number computed from it is
  \<^verbatim>\<open>NaN\<close>: the view is empty, nothing is stored, and the empty view is written at
  offset 0.
\<close>

definition setBlockUnfree :: "settings \<Rightarrow> jsnum \<Rightarrow> (Device, unit) exn" where
  "setBlockUnfree c blockIndex d =
     (case blockIndex of
        Num x \<Rightarrow>
          (let bitmapBlockIndex = x div (8 * BLOCK_SIZE c);
               bitmapByteIndex = jsRem (x div 8) (BLOCK_SIZE c);
               bitmapBitIndex = jsRem x 8;
               block = readBlock (Num bitmapBlockIndex) d
           in thenM (viewUpdateByte block bitmapByteIndex (setBit bitmapBitIndex))
                (writeView (Num bitmapBlockIndex) block) d)
      | _ \<Rightarrow> writeBlock NaN [] d)"

definition setBlockFree :: "settings \<Rightarrow> jsnum \<Rightarrow> (Device, unit) exn" where
  "setBlockFree c blockIndex d =
     (case blockIndex of
        Num x \<Rightarrow>
          (let bitmapBlockIndex = x div (8 * BLOCK_SIZE c);
               bitmapByteIndex = jsRem (x div 8) (BLOCK_SIZE c);
               bitmapBitIndex = jsRem x 8;
               block = readBlock (Num bitmapBlockIndex) d
           in thenM (viewUpdateByte block bitmapByteIndex (clearBit bitmapBitIndex))
                (writeView (Num bitmapBlockIndex) block) d)
      | _ \<Rightarrow> writeBlock NaN [] d)"

definition clearBlock :: "settings \<Rightarrow> jsnum \<Rightarrow> (Device, unit) exn" where
  "clearBlock c blockAddress d = writeBlock blockAddress (replicate (nat (BLOCK_SIZE c)) 0) d"

text \<open>
  \<^verbatim>\<open>_getFreeBlockAddress\<close> copies the bitmap out of the first blocks (each part is cut
  to the room left in the copy, so \<^verbatim>\<open>set\<close> cannot throw) and scans it. When no bit is
  clear the function falls off its end: it returns \<^verbatim>\<open>undefined\<close>.
\<close>

fun scanBitmap :: "byte list \<Rightarrow> int \<Rightarrow> jsnum" where
  "scanBitmap [] byteIndex = Undefined"
| "scanBitmap (byte # rest) byteIndex =
     (case find (\<lambda>bitIndex. byte AND bitMask (int bitIndex) = 0) [0..<8] of
        Some bitIndex \<Rightarrow> Num (byteIndex * 8 + int bitIndex)
      | None \<Rightarrow> scanBitmap rest (byteIndex + 1))"

definition readBitmap :: "settings \<Rightarrow> Device \<Rightarrow> byte list" where
  "readBitmap c d =
     (let bitmapSize = ceilDiv (BLOCK_COUNT c) 8
      in foldl (\<lambda>bitmap blockIndex.
                  let part = subarray (blockBytes (Num (int blockIndex)) d) 0
                               (bitmapSize - int blockIndex * BLOCK_SIZE c)
                  in case typedSet bitmap part (int blockIndex * BLOCK_SIZE c) of
                       Inl e \<Rightarrow> bitmap
                     | Inr bitmap1 \<Rightarrow> bitmap1)
               (replicate (nat bitmapSize) 0)
               [0..<nat (ceilDiv bitmapSize (BLOCK_SIZE c))])"

definition getFreeBlockAddress :: "settings \<Rightarrow> Device \<Rightarrow> jsnum" where
  "getFreeBlockAddress c d = scanBitmap (readBitmap c d) 0"

subsection \<open>The descriptor table\<close>

text \<open>
  \<^verbatim>\<open>getDescriptor\<close> and \<^verbatim>\<open>_updateDescriptor\<close> take the block of a descriptor with
  \<^verbatim>\<open>Math.ceil\<close> and its place in the block with \<^verbatim>\<open>%\<close>.
\<close>

definition getDescriptor :: "settings \<Rightarrow> int \<Rightarrow> Device \<Rightarrow> error + INode" where
  "getDescriptor c ino' d =
     (let startAddress = ceilDiv (BLOCK_COUNT c) 8 + 4;
          inodeAddress = startAddress + ino' * INODE_SIZE c;
          inodeBlockAddress = ceilDiv inodeAddress (BLOCK_SIZE c);
          inodeAddressInBlock = jsRem inodeAddress (BLOCK_SIZE c);
          inodeBytes = subarray (blockBytes (Num inodeBlockAddress) d) inodeAddressInBlock
                         (inodeAddressInBlock + INODE_SIZE c)
      in case deserializeInode c inodeBytes of
           None \<Rightarrow> Inl ModelLimit
         | Some inode \<Rightarrow> Inr (inode\<lparr>ino := ino'\<rparr>))"

definition getDescriptorOf :: "settings \<Rightarrow> jsnum \<Rightarrow> Device \<Rightarrow> error + INode" where
  "getDescriptorOf c x d = (case x of Num i \<Rightarrow> getDescriptor c i d | _ \<Rightarrow> Inl ModelLimit)"

definition updateDescriptor :: "settings \<Rightarrow> INode \<Rightarrow> (Device, unit) exn" where
  "updateDescriptor c inode d =
     (let startAddress = ceilDiv (BLOCK_COUNT c) 8 + 4;
          inodeAddress = startAddress + ino inode * INODE_SIZE c;
          inodeBlockAddress = ceilDiv inodeAddress (BLOCK_SIZE c);
          inodeAddressInBlock = jsRem inodeAddress (BLOCK_SIZE c)
      in case serializeInode c inode of
           Inl e \<Rightarrow> (Inl e, d)
         | Inr inodeBytes \<Rightarrow>
             (let block = readBlock (Num inodeBlockAddress) d
              in thenM (viewSet block inodeBytes inodeAddressInBlock)
                   (writeView (Num inodeBlockAddress) block) d))"

subsection \<open>The block addresses of a file\<close>

text \<open>Comparison of a value with a number: \<^verbatim>\<open>NaN\<close> and \<^verbatim>\<open>undefined\<close> equal no number.\<close>

definition jsEq :: "jsnum \<Rightarrow> int \<Rightarrow> bool" where
  "jsEq x k = (case x of Num a \<Rightarrow> a = k | _ \<Rightarrow> False)"

definition readElem :: "jsnum \<Rightarrow> jsnum" where
  "readElem x = (case x of Hole \<Rightarrow> Undefined | _ \<Rightarrow> x)"

text \<open>
  \<^verbatim>\<open>array[i] = v\<close>: an index past the end leaves empty slots before it, and a negative
  index sets a property that is no element of the array.
\<close>

definition jsArraySet :: "jsnum list \<Rightarrow> int \<Rightarrow> jsnum \<Rightarrow> jsnum list" where
  "jsArraySet xs i v =
     (if i < 0 then xs
      else if nat i < length xs then xs[nat i := v]
      else xs @ replicate (nat i - length xs) Hole @ [v])"

text \<open>\<^verbatim>\<open>array.pop()\<close> (an argument is ignored): the last element, \<^verbatim>\<open>undefined\<close> when empty.\<close>

definition jsPop :: "jsnum list \<Rightarrow> jsnum" where
  "jsPop xs = (if xs = [] then Undefined else readElem (last xs))"

text \<open>
  \<^verbatim>\<open>_getBlocks\<close> is a generator. Each of its three loops walks a list of addresses that
  is fixed when the loop starts; \<open>yieldWhile\<close> is one such loop: the addresses it yields,
  the block index it reaches, and whether it ended the generator (\<^verbatim>\<open>return\<close>).
\<close>

fun yieldWhile :: "settings \<Rightarrow> jsnum list \<Rightarrow> int \<Rightarrow> int \<Rightarrow> jsnum list \<times> int \<times> bool" where
  "yieldWhile c [] blockIndex endBlockIndex = ([], blockIndex, False)"
| "yieldWhile c (blockAddress # rest) blockIndex endBlockIndex =
     (if jsEq blockAddress (NAN_BLOCK_ADDRESS c) then ([], blockIndex, True)
      else if blockIndex = endBlockIndex then ([], blockIndex, True)
      else (case yieldWhile c rest (blockIndex + 1) endBlockIndex of
              (ys, bi, returned) \<Rightarrow> (readElem blockAddress # ys, bi, returned)))"

text \<open>
  The addresses each loop walks, \<open>None\<close> when the condition before the loop is false:
  the straight links from \<open>blockIndex\<close> on, the entries of the single indirect block,
  and the entries of the double indirect block.
\<close>

definition straightAddresses :: "INode \<Rightarrow> int \<Rightarrow> jsnum list option" where
  "straightAddresses inode blockIndex =
     (if blockIndex < int (length (straightLinks inode))
      then Some (subarrayFrom (straightLinks inode) blockIndex)
      else None)"

definition singleAddresses :: "settings \<Rightarrow> INode \<Rightarrow> int \<Rightarrow> Device \<Rightarrow> jsnum list option" where
  "singleAddresses c inode blockIndex d =
     (if blockIndex < int (length (straightLinks inode)) + ADDRESSES_IN_BLOCK c \<and>
         \<not> jsEq (singleIndirect inode) (NAN_BLOCK_ADDRESS c)
      then Some (deserializeAddresses c (blockBytes (singleIndirect inode) d))
      else None)"

definition doubleAddresses :: "settings \<Rightarrow> INode \<Rightarrow> int \<Rightarrow> Device \<Rightarrow> jsnum list option" where
  "doubleAddresses c inode blockIndex d =
     (if blockIndex < int (length (straightLinks inode)) +
                       ADDRESSES_IN_BLOCK c * ADDRESSES_IN_BLOCK c \<and>
         \<not> jsEq (doubleIndirect inode) (NAN_BLOCK_ADDRESS c)
      then Some (deserializeAddresses c (blockBytes (doubleIndirect inode) d))
      else None)"

definition yieldOpt ::
  "settings \<Rightarrow> jsnum list option \<Rightarrow> int \<Rightarrow> int \<Rightarrow> jsnum list \<times> int \<times> bool" where
  "yieldOpt c addresses blockIndex endBlockIndex =
     (case addresses of
        None \<Rightarrow> ([], blockIndex, False)
      | Some as \<Rightarrow> yieldWhile c as blockIndex endBlockIndex)"

fun yieldDouble :: "settings \<Rightarrow> jsnum list \<Rightarrow> int \<Rightarrow> int \<Rightarrow> Device \<Rightarrow> jsnum list" where
  "yieldDouble c [] blockIndex endBlockIndex d = []"
| "yieldDouble c (singleIndirectAddress # rest) blockIndex endBlockIndex d =
     (if jsEq singleIndirectAddress (NAN_BLOCK_ADDRESS c) then []
      else (case yieldWhile c (deserializeAddresses c (blockBytes singleIndirectAddress d))
                   blockIndex endBlockIndex of
              (ys, bi, returned) \<Rightarrow>
                if returned then ys else ys @ yieldDouble c rest bi endBlockIndex d))"

text \<open>
  The whole sequence the generator yields when the device does not change while it runs
  (\<^verbatim>\<open>_read\<close>, and the spread \<^verbatim>\<open>[...this._getBlocks(inode)]\<close>).
\<close>

definition getBlocks :: "settings \<Rightarrow> INode \<Rightarrow> int \<Rightarrow> int \<Rightarrow> Device \<Rightarrow> jsnum list" where
  "getBlocks c inode startBlockIndex endBlockIndex d =
     (case yieldOpt c (straightAddresses inode startBlockIndex) startBlockIndex endBlockIndex of
        (ys1, bi1, returned1) \<Rightarrow>
          if returned1 then ys1
          else (case yieldOpt c (singleAddresses c inode bi1 d) bi1 endBlockIndex of
                  (ys2, bi2, returned2) \<Rightarrow>
                    if returned2 then ys1 @ ys2
                    else (case doubleAddresses c inode bi2 d of
                            None \<Rightarrow> ys1 @ ys2
                          | Some outer \<Rightarrow> ys1 @ ys2 @ yieldDouble c outer bi2 endBlockIndex d)))"

subsection \<open>Reading\<close>

fun readLoop ::
  "settings \<Rightarrow> int \<Rightarrow> jsnum list \<Rightarrow> byte list \<Rightarrow> int \<Rightarrow> int \<Rightarrow> Device \<Rightarrow> error + byte list" where
  "readLoop c sz [] buffer offset readBytes d = Inr buffer"
| "readLoop c sz (blockAddres # rest) buffer offset readBytes d =
     (let offsetInBlock = jsRem offset (blockSize d);
          readBytesInBlock = min (blockSize d - offsetInBlock) (sz - readBytes);
          block = (if jsEq blockAddres (ZERO_BLOCK_ADDRESS c)
                   then replicate (nat (BLOCK_SIZE c)) 0
                   else blockBytes blockAddres d)
      in case typedSet buffer
                (subarray block offsetInBlock (offsetInBlock + readBytesInBlock)) readBytes of
           Inl e \<Rightarrow> Inl e
         | Inr buffer1 \<Rightarrow>
             readLoop c sz rest buffer1
               (offset + (readBytes + readBytesInBlock)) (readBytes + readBytesInBlock) d)"

definition read' :: "settings \<Rightarrow> INode \<Rightarrow> int \<Rightarrow> int \<Rightarrow> Device \<Rightarrow> error + byte list" where
  "read' c inode offset sz d =
     (if size' inode < offset + sz then Inl OutOfBounds
      else if sz < 0 then Inl RangeError
      else let startBlockIndex = offset div blockSize d;
               endBlockIndex = (offset + sz) div blockSize d + 1
           in readLoop c sz (getBlocks c inode startBlockIndex endBlockIndex d)
                (replicate (nat sz) 0) offset 0 d)"

definition readDirectory' :: "settings \<Rightarrow> INode \<Rightarrow> Device \<Rightarrow> error + Dentry list" where
  "readDirectory' c dir d =
     (case read' c dir 0 (size' dir) d of
        Inl e \<Rightarrow> Inl e
      | Inr dirData \<Rightarrow> Inr (deserializeDentries c dirData))"

subsection \<open>Writing\<close>

text \<open>
  \<^verbatim>\<open>serializeAddress(addresses)\<close> is given the whole array where an address is meant.
  The shifts convert the array to a number: an array of one element converts as that
  element does, the empty array to 0, a longer one to \<^verbatim>\<open>NaN\<close>.
\<close>

definition arrayToNumber :: "jsnum list \<Rightarrow> jsnum" where
  "arrayToNumber xs = (case xs of [] \<Rightarrow> Num 0 | [x] \<Rightarrow> x | _ \<Rightarrow> NaN)"

definition jsNth :: "jsnum list \<Rightarrow> int \<Rightarrow> jsnum" where
  "jsNth xs i = (if 0 \<le> i \<and> i < int (length xs) then readElem (xs ! nat i) else Undefined)"

text \<open>The addresses held by the block at an address.\<close>

definition addressesAt :: "settings \<Rightarrow> jsnum \<Rightarrow> Device \<Rightarrow> jsnum list" where
  "addressesAt c blockAddress d = deserializeAddresses c (blockBytes blockAddress d)"

definition setDescriptorBlock :: "settings \<Rightarrow> INode \<Rightarrow> int \<Rightarrow> jsnum \<Rightarrow> (Device, INode) exn" where
  "setDescriptorBlock c inode blockIndex blockAddress d =
     (if blockIndex < INODE_STRAIGHT_LINKS_COUNT c then
        (let inode1 = inode\<lparr>straightLinks := jsArraySet (straightLinks inode) blockIndex blockAddress\<rparr>
         in thenM (updateDescriptor c inode1) (ret inode1) d)
      else if blockIndex < INODE_STRAIGHT_LINKS_COUNT c + ADDRESSES_IN_BLOCK c then
        (let addresses = addressesAt c (singleIndirect inode) d;
             buff = serializeAddress (arrayToNumber (jsArraySet addresses blockIndex blockAddress))
         in thenM (writeBlock (singleIndirect inode) buff) (ret inode) d)
      else
        (let singleIndirectIndex =
               (blockIndex - INODE_STRAIGHT_LINKS_COUNT c - ADDRESSES_IN_BLOCK c) div
               ADDRESSES_IN_BLOCK c;
             addressIndex =
               jsRem (blockIndex - INODE_STRAIGHT_LINKS_COUNT c - ADDRESSES_IN_BLOCK c)
                 (ADDRESSES_IN_BLOCK c);
             sindleIndirectAddresses = addressesAt c (doubleIndirect inode) d;
             singleIndirectAddress = jsNth sindleIndirectAddresses singleIndirectIndex;
             addresses = addressesAt c singleIndirectAddress d;
             buff = serializeAddress (arrayToNumber (jsArraySet addresses addressIndex blockAddress))
         in thenM (writeBlock singleIndirectAddress buff) (ret inode) d))"

text \<open>
  The body of the loop of \<^verbatim>\<open>_write\<close> for one yielded address, in two parts: a block
  is allocated when the address is \<open>ZERO_BLOCK_ADDRESS\<close>, and the bytes are stored. The
  loop carries the inode object, \<open>offset\<close>, \<open>writenBytes\<close> and \<open>blockIndexInINode\<close>;
  \<open>offset\<close> grows by the whole of \<open>writenBytes\<close> each time round, as in the source.
\<close>

definition allocateZero ::
  "settings \<Rightarrow> jsnum \<Rightarrow> INode \<Rightarrow> int \<Rightarrow> (Device, INode \<times> jsnum) exn" where
  "allocateZero c blockAddress0 inode blockIndexInINode d =
     (if jsEq blockAddress0 (ZERO_BLOCK_ADDRESS c) then
        (let blockAddress = getFreeBlockAddress c d
         in thenM (setBlockUnfree c blockAddress)
           (thenM (clearBlock c blockAddress)
           (bindM (setDescriptorBlock c inode blockIndexInINode blockAddress)
              (\<lambda>inode1. ret (inode1, blockAddress)))) d)
      else (Inr (inode, blockAddress0), d))"

definition storeInBlock ::
  "byte list \<Rightarrow> jsnum \<Rightarrow> int \<Rightarrow> int \<Rightarrow> (Device, int) exn" where
  "storeInBlock buffer blockAddress offset writenBytes d =
     (let offsetInBlock = jsRem offset (blockSize d);
          writeBytesInBlock =
            min (blockSize d - offsetInBlock) (int (length buffer) - writenBytes);
          buf = subarray buffer writenBytes (writenBytes + writeBytesInBlock);
          block = readBlock blockAddress d
      in thenM (viewSet block buf offsetInBlock)
        (thenM (writeView blockAddress block) (ret writeBytesInBlock)) d)"

definition writeStep ::
  "settings \<Rightarrow> byte list \<Rightarrow> jsnum \<Rightarrow> INode \<Rightarrow> int \<Rightarrow> int \<Rightarrow> int \<Rightarrow>
   (Device, INode \<times> int \<times> int \<times> int) exn" where
  "writeStep c buffer blockAddress0 inode offset writenBytes blockIndexInINode d =
     (case allocateZero c blockAddress0 inode blockIndexInINode d of
        (Inl e, d1) \<Rightarrow> (Inl e, d1)
      | (Inr (inode1, blockAddress), d1) \<Rightarrow>
          (case storeInBlock buffer blockAddress offset writenBytes d1 of
             (Inl e, d2) \<Rightarrow> (Inl e, d2)
           | (Inr writeBytesInBlock, d2) \<Rightarrow>
               (Inr (inode1, offset + (writenBytes + writeBytesInBlock),
                     writenBytes + writeBytesInBlock, blockIndexInINode + 1), d2)))"

fun writeLoop ::
  "settings \<Rightarrow> byte list \<Rightarrow> jsnum list \<Rightarrow> INode \<Rightarrow> int \<Rightarrow> int \<Rightarrow> int \<Rightarrow>
   (Device, INode \<times> int \<times> int \<times> int) exn" where
  "writeLoop c buffer [] inode offset writenBytes blockIndexInINode d =
     (Inr (inode, offset, writenBytes, blockIndexInINode), d)"
| "writeLoop c buffer (blockAddress # rest) inode offset writenBytes blockIndexInINode d =
     (case writeStep c buffer blockAddress inode offset writenBytes blockIndexInINode d of
        (Inl e, d1) \<Rightarrow> (Inl e, d1)
      | (Inr (inode1, offset1, writenBytes1, blockIndexInINode1), d1) \<Rightarrow>
          writeLoop c buffer rest inode1 offset1 writenBytes1 blockIndexInINode1 d1)"

fun writeDouble ::
  "settings \<Rightarrow> byte list \<Rightarrow> jsnum list \<Rightarrow> int \<Rightarrow> int \<Rightarrow> INode \<Rightarrow> int \<Rightarrow> int \<Rightarrow> int \<Rightarrow>
   (Device, INode) exn" where
  "writeDouble c buffer [] blockIndex endBlockIndex inode offset writenBytes blockIndexInINode d =
     (Inr inode, d)"
| "writeDouble c buffer (singleIndirectAddress # rest) blockIndex endBlockIndex inode offset
     writenBytes blockIndexInINode d =
     (if jsEq singleIndirectAddress (NAN_BLOCK_ADDRESS c) then (Inr inode, d)
      else (case yieldWhile c (addressesAt c singleIndirectAddress d) blockIndex endBlockIndex of
              (ys, bi, returned) \<Rightarrow>
                (case writeLoop c buffer ys inode offset writenBytes blockIndexInINode d of
                   (Inl e, d1) \<Rightarrow> (Inl e, d1)
                 | (Inr (inode1, offset1, writenBytes1, blockIndexInINode1), d1) \<Rightarrow>
                     if returned then (Inr inode1, d1)
                     else writeDouble c buffer rest bi endBlockIndex inode1 offset1 writenBytes1
                            blockIndexInINode1 d1)))"

text \<open>
  \<^verbatim>\<open>_write\<close>. The generator runs in step with the loop, so the single indirect block is
  read after the loop has handled the straight links, and each block of the double
  indirect level after the loop has handled the one before. The result is the inode
  object as the method leaves it.
\<close>

definition write' :: "settings \<Rightarrow> INode \<Rightarrow> int \<Rightarrow> byte list \<Rightarrow> (Device, INode) exn" where
  "write' c inode offset buffer d =
     (if size' inode < offset + int (length buffer) then (Inl OutOfBounds, d)
      else
        (let startBlockIndex = offset div blockSize d;
             endBlockIndex = (offset + int (length buffer)) div blockSize d + 1
         in case yieldOpt c (straightAddresses inode startBlockIndex) startBlockIndex
                   endBlockIndex of
              (ys1, bi1, returned1) \<Rightarrow>
                (case writeLoop c buffer ys1 inode offset 0 startBlockIndex d of
                   (Inl e, d1) \<Rightarrow> (Inl e, d1)
                 | (Inr (inode1, offset1, writenBytes1, blockIndexInINode1), d1) \<Rightarrow>
                     if returned1 then (Inr inode1, d1)
                     else
                       (case yieldOpt c (singleAddresses c inode1 bi1 d1) bi1 endBlockIndex of
                          (ys2, bi2, returned2) \<Rightarrow>
                            (case writeLoop c buffer ys2 inode1 offset1 writenBytes1
                                    blockIndexInINode1 d1 of
                               (Inl e, d2) \<Rightarrow> (Inl e, d2)
                             | (Inr (inode2, offset2, writenBytes2, blockIndexInINode2), d2) \<Rightarrow>
                                 if returned2 then (Inr inode2, d2)
                                 else
                                   (case doubleAddresses c inode2 bi2 d2 of
                                      None \<Rightarrow> (Inr inode2, d2)
                                    | Some outer \<Rightarrow>
                                        writeDouble c buffer outer bi2 endBlockIndex inode2
                                          offset2 writenBytes2 blockIndexInINode2 d2))))))"

subsection \<open>Changing the size of a file\<close>

text \<open>
  The first loop of \<^verbatim>\<open>_appendBlockToINode\<close>: the straight links. The result says
  whether the method returned from inside the loop (the list ran empty).
\<close>

function appendStraight ::
  "settings \<Rightarrow> INode \<Rightarrow> int \<Rightarrow> jsnum list \<Rightarrow> INode \<times> int \<times> jsnum list \<times> bool" where
  "appendStraight c inode blockExists blockAddreses =
     (if blockExists < INODE_STRAIGHT_LINKS_COUNT c then
        (let inode1 = inode\<lparr>straightLinks :=
                              jsArraySet (straightLinks inode) blockExists (jsPop blockAddreses)\<rparr>;
             rest = butlast blockAddreses
         in if rest = [] then (inode1, blockExists + 1, rest, True)
            else appendStraight c inode1 (blockExists + 1) rest)
      else (inode, blockExists, blockAddreses, False))"
  by pat_completeness auto
termination
  by (relation "measure (\<lambda>(c, inode, blockExists, blockAddreses).
                  nat (INODE_STRAIGHT_LINKS_COUNT c - blockExists))") auto

text \<open>The second loop: the entries of the single indirect block, set through its view.\<close>

function appendSingle ::
  "settings \<Rightarrow> int option \<Rightarrow> int \<Rightarrow> jsnum list \<Rightarrow> (Device, int \<times> jsnum list \<times> bool) exn" where
  "appendSingle c singleIndirectBlock blockExists blockAddreses d =
     (if blockExists < INODE_STRAIGHT_LINKS_COUNT c + ADDRESSES_IN_BLOCK c then
        (let address = jsPop blockAddreses;
             addressBytes = serializeAddress address;
             offset = (blockExists - INODE_STRAIGHT_LINKS_COUNT c) * ADDRESS_SIZE c;
             rest = butlast blockAddreses
         in case viewSet singleIndirectBlock addressBytes offset d of
              (Inl e, d1) \<Rightarrow> (Inl e, d1)
            | (Inr u, d1) \<Rightarrow>
                if rest = [] then (Inr (blockExists + 1, rest, True), d1)
                else appendSingle c singleIndirectBlock (blockExists + 1) rest d1)
      else (Inr (blockExists, blockAddreses, False), d))"
  by pat_completeness auto
termination
  by (relation "measure (\<lambda>(c, singleIndirectBlock, blockExists, blockAddreses, d).
                  nat (INODE_STRAIGHT_LINKS_COUNT c + ADDRESSES_IN_BLOCK c - blockExists))") auto

text \<open>
  A new indirect block: \<^verbatim>\<open>_getFreeBlockAddress\<close>, \<^verbatim>\<open>_setBlockUnfree\<close>,
  \<^verbatim>\<open>_clearBlock\<close>.
\<close>

definition allocateIndirect :: "settings \<Rightarrow> (Device, jsnum) exn" where
  "allocateIndirect c d =
     (let address = getFreeBlockAddress c d
      in thenM (setBlockUnfree c address) (thenM (clearBlock c address) (ret address)) d)"

text \<open>
  \<^verbatim>\<open>_appendBlockToINode\<close>. In the part for the double indirect level the comparison of
  the serialized address with \<open>NAN_BLOCK_ADDRESS\<close> is false (a four-byte array converts to
  \<^verbatim>\<open>NaN\<close>), and the next statement reads the undeclared variable
  \<^verbatim>\<open>singleIndirectAddresss\<close>: a ReferenceError, before anything else is written. When the
  loop condition is false from the start the method writes the block and the descriptor
  and throws its own error.
\<close>

definition withDoubleIndirect :: "settings \<Rightarrow> INode \<Rightarrow> (Device, INode) exn" where
  "withDoubleIndirect c inode d =
     (if jsEq (doubleIndirect inode) (NAN_BLOCK_ADDRESS c)
      then bindM (allocateIndirect c) (\<lambda>address. ret (inode\<lparr>doubleIndirect := address\<rparr>)) d
      else (Inr inode, d))"

definition withSingleIndirect :: "settings \<Rightarrow> INode \<Rightarrow> (Device, INode) exn" where
  "withSingleIndirect c inode d =
     (if jsEq (singleIndirect inode) (NAN_BLOCK_ADDRESS c)
      then bindM (allocateIndirect c) (\<lambda>address. ret (inode\<lparr>singleIndirect := address\<rparr>)) d
      else (Inr inode, d))"

definition appendDoubleLoop :: "settings \<Rightarrow> INode \<Rightarrow> int \<Rightarrow> (Device, INode) exn" where
  "appendDoubleLoop c inode1 blockExists d =
     (if blockExists <
         INODE_STRAIGHT_LINKS_COUNT c + ADDRESSES_IN_BLOCK c +
         ADDRESSES_IN_BLOCK c * ADDRESSES_IN_BLOCK c
      then (Inl ReferenceError, d)
      else
        thenM (writeView (doubleIndirect inode1) (readBlock (doubleIndirect inode1) d))
          (thenM (updateDescriptor c inode1) (throw (Error ''Not enough double indirect''))) d)"

definition appendDouble :: "settings \<Rightarrow> INode \<Rightarrow> int \<Rightarrow> (Device, INode) exn" where
  "appendDouble c inode blockExists d =
     bindM (withDoubleIndirect c inode) (\<lambda>inode1. appendDoubleLoop c inode1 blockExists) d"

definition appendSingleLoop ::
  "settings \<Rightarrow> INode \<Rightarrow> int \<Rightarrow> jsnum list \<Rightarrow> (Device, INode) exn" where
  "appendSingleLoop c inode1 blockExists blockAddreses d =
     (let singleIndirectBlock = readBlock (singleIndirect inode1) d
      in bindM (appendSingle c singleIndirectBlock blockExists blockAddreses)
           (\<lambda>(blockExists1, rest, returned).
              thenM (writeView (singleIndirect inode1) singleIndirectBlock)
                (if returned then thenM (updateDescriptor c inode1) (ret inode1)
                 else appendDouble c inode1 blockExists1)) d)"

definition appendIndirect ::
  "settings \<Rightarrow> INode \<Rightarrow> int \<Rightarrow> jsnum list \<Rightarrow> (Device, INode) exn" where
  "appendIndirect c inode blockExists blockAddreses d =
     bindM (withSingleIndirect c inode)
       (\<lambda>inode1. appendSingleLoop c inode1 blockExists blockAddreses) d"

definition appendBlockToINode :: "settings \<Rightarrow> INode \<Rightarrow> jsnum list \<Rightarrow> (Device, INode) exn" where
  "appendBlockToINode c inode blockAddreses d =
     (if blockAddreses = [] then (Inr inode, d)
      else
        (case appendStraight c inode (ceilDiv (size' inode) (BLOCK_SIZE c)) blockAddreses of
           (inode1, blockExists1, rest1, returned1) \<Rightarrow>
             if returned1 then thenM (updateDescriptor c inode1) (ret inode1) d
             else appendIndirect c inode1 blockExists1 rest1 d))"

text \<open>
  \<^verbatim>\<open>_increaseINode\<close> updates the size on a copy of the inode object: the object itself
  keeps its old size and gets the new links.
\<close>

definition sizeUpdated :: "settings \<Rightarrow> int \<Rightarrow> INode \<Rightarrow> (Device, INode) exn" where
  "sizeUpdated c sz inode1 d = thenM (updateDescriptor c (inode1\<lparr>size' := sz\<rparr>)) (ret inode1) d"

definition increaseINode :: "settings \<Rightarrow> INode \<Rightarrow> int \<Rightarrow> (Device, INode) exn" where
  "increaseINode c inode sz d =
     (let blockExists = ceilDiv (size' inode) (BLOCK_SIZE c);
          needBlocks = ceilDiv sz (BLOCK_SIZE c);
          newFreeBlockAddresses =
            replicate (nat (needBlocks - blockExists)) (Num (ZERO_BLOCK_ADDRESS c))
      in bindM (appendBlockToINode c inode newFreeBlockAddresses) (sizeUpdated c sz) d)"

text \<open>The values of \<open>n\<close> successive \<^verbatim>\<open>pop()\<close> calls on an array.\<close>

definition pops :: "nat \<Rightarrow> jsnum list \<Rightarrow> jsnum list" where
  "pops n xs = take n (map readElem (rev xs)) @ replicate (n - length xs) Undefined"

text \<open>
  \<^verbatim>\<open>_removeLastBlocksFromINode\<close>. Every popped address goes to \<^verbatim>\<open>_setBlockFree\<close>,
  whatever it is. The method then has three parts, one for each level of addressing.
  The part for the double indirect level calls \<^verbatim>\<open>serializeAddresses\<close>, which throws.
\<close>

definition clearedDouble :: "settings \<Rightarrow> INode \<Rightarrow> jsnum list \<Rightarrow> (Device, INode) exn" where
  "clearedDouble c inode addresses d =
     (if addresses = [] then
        (let inode1 = inode\<lparr>doubleIndirect := Num (NAN_BLOCK_ADDRESS c)\<rparr>
         in thenM (updateDescriptor c inode1) (ret inode1) d)
      else (Inr inode, d))"

definition removeDouble :: "settings \<Rightarrow> INode \<Rightarrow> int \<Rightarrow> int \<Rightarrow> (Device, INode) exn" where
  "removeDouble c inode blockExists removeBlocksCount d =
     (if \<not> jsEq (doubleIndirect inode) (NAN_BLOCK_ADDRESS c) then
        (let singleIndirectCount =
               ceilDiv (blockExists - INODE_STRAIGHT_LINKS_COUNT c - ADDRESSES_IN_BLOCK c)
                 (ADDRESSES_IN_BLOCK c);
             singleIndirectEnough =
               max 0 (ceilDiv (blockExists - removeBlocksCount -
                               INODE_STRAIGHT_LINKS_COUNT c - ADDRESSES_IN_BLOCK c)
                        (ADDRESSES_IN_BLOCK c));
             needToRemove = singleIndirectCount - singleIndirectEnough;
             addresses0 =
               deserializeAddresses c
                 (subarray (blockBytes (doubleIndirect inode) d) 0
                    (singleIndirectCount * ADDRESS_SIZE c));
             addresses = take (length addresses0 - nat needToRemove) addresses0
         in thenM (forM (pops (nat needToRemove) addresses0) (setBlockFree c))
           (bindM (liftE (serializeAddresses c addresses)) (\<lambda>addressesData.
            bindM (liftE (typedSet (replicate (nat (BLOCK_SIZE c)) 0) addressesData 0)) (\<lambda>buff.
            thenM (writeBlock (doubleIndirect inode) buff)
              (clearedDouble c inode addresses)))) d)
      else (Inr inode, d))"

text \<open>
  \<^verbatim>\<open>copyWithin(buff, 0, n)\<close> converts the array \<open>buff\<close> to the target index 0 and copies
  the start of the view onto itself, so the block written back is the zero-filled
  \<open>buff\<close>.
\<close>

definition removeSingle :: "settings \<Rightarrow> INode \<Rightarrow> int \<Rightarrow> int \<Rightarrow> (Device, INode) exn" where
  "removeSingle c inode blockExists removeBlocksCount d =
     (if \<not> jsEq (singleIndirect inode) (NAN_BLOCK_ADDRESS c) then
        (let enoughBlockInSingleIndirect =
               min (max 0 (blockExists - removeBlocksCount - INODE_STRAIGHT_LINKS_COUNT c))
                 (ADDRESSES_IN_BLOCK c)
         in case writeBlock (singleIndirect inode) (replicate (nat (BLOCK_SIZE c)) 0) d of
              (Inl e, d1) \<Rightarrow> (Inl e, d1)
            | (Inr u, d1) \<Rightarrow>
                if enoughBlockInSingleIndirect = 0 then
                  (let inode1 = inode\<lparr>singleIndirect := Num (NAN_BLOCK_ADDRESS c)\<rparr>
                   in thenM (updateDescriptor c inode1) (ret inode1) d1)
                else (Inr inode, d1))
      else (Inr inode, d))"

definition removeStraight :: "settings \<Rightarrow> INode \<Rightarrow> int \<Rightarrow> int \<Rightarrow> (Device, INode) exn" where
  "removeStraight c inode blockExists removeBlocksCount d =
     (if blockExists - removeBlocksCount < INODE_STRAIGHT_LINKS_COUNT c then
        (let inode1 =
               inode\<lparr>straightLinks :=
                       foldl (\<lambda>links linkIndex.
                                jsArraySet links linkIndex (Num (NAN_BLOCK_ADDRESS c)))
                         (straightLinks inode)
                         [blockExists - removeBlocksCount..INODE_STRAIGHT_LINKS_COUNT c - 1]\<rparr>
         in thenM (updateDescriptor c inode1) (ret inode1) d)
      else (Inr inode, d))"

definition removeLastBlocksFromINode :: "settings \<Rightarrow> INode \<Rightarrow> int \<Rightarrow> (Device, INode) exn" where
  "removeLastBlocksFromINode c inode removeBlocksCount d =
     (let blockExists = ceilDiv (size' inode) (BLOCK_SIZE c);
          blockAddresses = getBlocks c inode 0 (- 1) d
      in thenM (forM (pops (nat removeBlocksCount) blockAddresses) (setBlockFree c))
        (bindM (removeDouble c inode blockExists removeBlocksCount) (\<lambda>inode1.
         bindM (removeSingle c inode1 blockExists removeBlocksCount) (\<lambda>inode2.
         removeStraight c inode2 blockExists removeBlocksCount))) d)"

text \<open>
  The rest of \<^verbatim>\<open>_descreaseINode\<close>: the tail of the last block the generator still
  yields is zeroed when the new size does not end on a block boundary, and the new size
  is written.
\<close>

definition zeroTail :: "settings \<Rightarrow> jsnum \<Rightarrow> int \<Rightarrow> (Device, unit) exn" where
  "zeroTail c lastBlockAddress lastBlockByteCount d =
     (if lastBlockByteCount \<noteq> 0 then
        (let lastBlock = readBlock lastBlockAddress d
         in thenM (viewSet lastBlock (replicate (nat (BLOCK_SIZE c - lastBlockByteCount)) 0)
                     lastBlockByteCount)
              (writeView lastBlockAddress lastBlock) d)
      else (Inr (), d))"

definition withSize :: "settings \<Rightarrow> INode \<Rightarrow> int \<Rightarrow> (Device, INode) exn" where
  "withSize c inode1 sz d =
     (let inode2 = inode1\<lparr>size' := sz\<rparr> in thenM (updateDescriptor c inode2) (ret inode2) d)"

definition shrinkTo :: "settings \<Rightarrow> int \<Rightarrow> INode \<Rightarrow> (Device, INode) exn" where
  "shrinkTo c sz inode1 d =
     (let blockAddresses = getBlocks c inode1 0 (- 1) d
      in if blockAddresses = [] then withSize c inode1 sz d
         else thenM (zeroTail c (last blockAddresses) (jsRem sz (BLOCK_SIZE c)))
                (withSize c inode1 sz) d)"

definition descreaseINode :: "settings \<Rightarrow> INode \<Rightarrow> int \<Rightarrow> (Device, INode) exn" where
  "descreaseINode c inode sz d =
     (let blockExists = ceilDiv (size' inode) (BLOCK_SIZE c);
          needBlocks = ceilDiv sz (BLOCK_SIZE c);
          removeBlocksCount = blockExists - needBlocks
      in bindM (removeLastBlocksFromINode c inode removeBlocksCount) (shrinkTo c sz) d)"

definition truncate' :: "settings \<Rightarrow> INode \<Rightarrow> int \<Rightarrow> (Device, INode) exn" where
  "truncate' c inode sz d =
     (if size' inode < sz then increaseINode c inode sz d else descreaseINode c inode sz d)"

subsection \<open>Directory entries and links\<close>

text \<open>
  \<^verbatim>\<open>_addLink(dir, file, filename)\<close>. The callers pass the same object twice when a
  directory gets an entry for itself; \<open>file = None\<close> says so, and then the increment of
  \<open>refs\<close> is made on the directory object as the method has changed it. The result is
  the two objects as the method leaves them.
\<close>

definition countLink :: "settings \<Rightarrow> INode option \<Rightarrow> INode \<Rightarrow> (Device, INode \<times> INode) exn" where
  "countLink c file dir3 d =
     (case file of
        None \<Rightarrow>
          (let dir4 = dir3\<lparr>refs := refs dir3 + 1\<rparr>
           in thenM (updateDescriptor c dir4) (ret (dir4, dir4)) d)
      | Some f \<Rightarrow>
          (let file1 = f\<lparr>refs := refs f + 1\<rparr>
           in thenM (updateDescriptor c file1) (ret (dir3, file1)) d))"

definition writeDentry :: "settings \<Rightarrow> byte list \<Rightarrow> INode \<Rightarrow> (Device, INode) exn" where
  "writeDentry c newDentryData dir1 d =
     (let dir2 = dir1\<lparr>size' := size' dir1 + DENTRY_SIZE c\<rparr>
      in write' c dir2 (size' dir2 - DENTRY_SIZE c) newDentryData d)"

definition addLink ::
  "settings \<Rightarrow> INode \<Rightarrow> INode option \<Rightarrow> string \<Rightarrow> (Device, INode \<times> INode) exn" where
  "addLink c dir file filename d =
     (case readDirectory' c dir d of
        Inl e \<Rightarrow> (Inl e, d)
      | Inr dentries \<Rightarrow>
          if find (\<lambda>dentry. fileName dentry = filename) dentries \<noteq> None
          then (Inl FileAlreadyExist, d)
          else
            (let newDentry = \<lparr>fileName = filename,
                             dentryIno = Num (ino (case file of None \<Rightarrow> dir | Some f \<Rightarrow> f))\<rparr>
             in case serializeDentry c newDentry of
                  Inl e \<Rightarrow> (Inl e, d)
                | Inr newDentryData \<Rightarrow>
                    bindM (truncate' c dir (size' dir + DENTRY_SIZE c))
                      (\<lambda>dir1. bindM (writeDentry c newDentryData dir1) (countLink c file)) d))"

definition unusedINode :: "settings \<Rightarrow> INode \<Rightarrow> INode" where
  "unusedINode c inode1 =
     inode1\<lparr>type := UNUSED, size' := 0,
             singleIndirect := Num (NAN_BLOCK_ADDRESS c),
             doubleIndirect := Num (NAN_BLOCK_ADDRESS c),
             straightLinks :=
               replicate (nat (INODE_STRAIGHT_LINKS_COUNT c)) (Num (NAN_BLOCK_ADDRESS c))\<rparr>"

definition updateUnused :: "settings \<Rightarrow> INode \<Rightarrow> (Device, unit) exn" where
  "updateUnused c inode1 d = updateDescriptor c (unusedINode c inode1) d"

definition removeOrUpdate :: "settings \<Rightarrow> INode \<Rightarrow> (Device, unit) exn" where
  "removeOrUpdate c inode d =
     (if refs inode = 0 then bindM (truncate' c inode 0) (updateUnused c) d
      else updateDescriptor c inode d)"

text \<open>
  \<^verbatim>\<open>_unlink\<close>. When no entry has the name, \<^verbatim>\<open>find\<close> gives \<^verbatim>\<open>undefined\<close> and reading
  its \<^verbatim>\<open>ino\<close> is a TypeError, thrown after the directory has been rewritten and
  truncated.
\<close>

definition dropRef :: "settings \<Rightarrow> Dentry option \<Rightarrow> (Device, unit) exn" where
  "dropRef c removeDentry d =
     (case removeDentry of
        None \<Rightarrow> (Inl TypeError, d)
      | Some dentry \<Rightarrow>
          (case getDescriptorOf c (dentryIno dentry) d of
             Inl e \<Rightarrow> (Inl e, d)
           | Inr file \<Rightarrow> removeOrUpdate c (file\<lparr>refs := refs file - 1\<rparr>) d))"

definition shrinkDir :: "settings \<Rightarrow> INode \<Rightarrow> (Device, INode) exn" where
  "shrinkDir c dir1 d = truncate' c dir1 (size' dir1 - DENTRY_SIZE c) d"

definition unlink' :: "settings \<Rightarrow> INode \<Rightarrow> string \<Rightarrow> (Device, unit) exn" where
  "unlink' c dir filename d =
     (case readDirectory' c dir d of
        Inl e \<Rightarrow> (Inl e, d)
      | Inr dentries \<Rightarrow>
          (let removeDentry = find (\<lambda>d. fileName d = filename) dentries;
               newDentries = filter (\<lambda>d. fileName d \<noteq> filename) dentries
           in case serializeDentries c newDentries of
                Inl e \<Rightarrow> (Inl e, d)
              | Inr newDentriesData \<Rightarrow>
                  bindM (write' c dir 0 newDentriesData)
                    (\<lambda>dir1. bindM (shrinkDir c dir1) (\<lambda>dir2. dropRef c removeDentry)) d))"

text \<open>
  \<^verbatim>\<open>_getUnusedDescriptor\<close>: the first descriptor below \<open>N\<close> whose type is \<open>UNUSED\<close>. The
  comparison \<^verbatim>\<open>ino < n\<close> is false when \<open>n\<close> is \<^verbatim>\<open>NaN\<close>.
\<close>

fun firstUnused :: "settings \<Rightarrow> int list \<Rightarrow> Device \<Rightarrow> error + INode" where
  "firstUnused c [] d = Inl (Error ''Unused descriptor not found'')"
| "firstUnused c (i # rest) d =
     (case getDescriptor c i d of
        Inl e \<Rightarrow> Inl e
      | Inr inode \<Rightarrow> if type inode = UNUSED then Inr inode else firstUnused c rest d)"

definition getUnusedDescriptor :: "settings \<Rightarrow> Device \<Rightarrow> error + INode" where
  "getUnusedDescriptor c d =
     (case getN c d of
        Num n \<Rightarrow> firstUnused c [0..n - 1] d
      | _ \<Rightarrow> Inl (Error ''Unused descriptor not found''))"

subsection \<open>Paths\<close>

fun lastIndexOfFrom :: "string \<Rightarrow> char \<Rightarrow> int \<Rightarrow> int \<Rightarrow> int" where
  "lastIndexOfFrom [] ch i found = found"
| "lastIndexOfFrom (x # xs) ch i found = lastIndexOfFrom xs ch (i + 1) (if x = ch then i else found)"

definition lastIndexOf :: "string \<Rightarrow> char \<Rightarrow> int" where
  "lastIndexOf s ch = lastIndexOfFrom s ch 0 (- 1)"

definition getFileName :: "string \<Rightarrow> string" where
  "getFileName filePath =
     substring filePath (lastIndexOf filePath (CHR ''/'') + 1) (int (length filePath))"

definition getDirPath :: "string \<Rightarrow> string" where
  "getDirPath filePath = substring filePath 0 (lastIndexOf filePath (CHR ''/''))"

text \<open>
  \<^verbatim>\<open>lookUp\<close> calls itself for the directory part of the path and for the body of a
  symbolic link; the counter \<^verbatim>\<open>symlinkDepth.depth\<close> is one object shared by all the
  calls, so each call returns its value along with the inode. The function is defined as
  a partial function: \<open>None\<close> stands for a lookup that does not return.
\<close>

partial_function (option) lookUpFrom ::
  "settings \<Rightarrow> string \<Rightarrow> bool \<Rightarrow> int \<Rightarrow> INode \<Rightarrow> Device \<Rightarrow> (error + INode \<times> int) option" where
  "lookUpFrom c filePath resolveSymlink depth baseDirectory d =
     (if filePath = ''/'' then
        Some (case getDescriptor c 0 d of Inl e \<Rightarrow> Inl e | Inr root \<Rightarrow> Inr (root, depth))
      else if filePath = [] then Some (Inr (baseDirectory, depth))
      else
        Option.bind
          (if getDirPath filePath = [] then Some (Inr (baseDirectory, depth))
           else lookUpFrom c (getDirPath filePath) True depth baseDirectory d)
          (\<lambda>r. case r of
                 Inl e \<Rightarrow> Some (Inl e)
               | Inr (dir, depth1) \<Rightarrow>
                   (case readDirectory' c dir d of
                      Inl e \<Rightarrow> Some (Inl e)
                    | Inr dentries \<Rightarrow>
                        (case find (\<lambda>dentry. fileName dentry = getFileName filePath) dentries of
                           None \<Rightarrow> Some (Inl InvalidPath)
                         | Some dentry \<Rightarrow>
                             (case getDescriptorOf c (dentryIno dentry) d of
                                Inl e \<Rightarrow> Some (Inl e)
                              | Inr file \<Rightarrow>
                                  if type file \<noteq> SYMLINK \<or> \<not> resolveSymlink
                                  then Some (Inr (file, depth1))
                                  else if depth1 < MAX_SYMLINK_DEPTH c then
                                    (case read' c file 0 (size' file) d of
                                       Inl e \<Rightarrow> Some (Inl e)
                                     | Inr linkPathBytes \<Rightarrow>
                                         lookUpFrom c (decode linkPathBytes) True (depth1 + 1) dir d)
                                  else Some (Inl (Error ''Symlink max depth overlapce'')))))))"

declare lookUpFrom.simps [code]

subsection \<open>The driver object and its public methods\<close>

record Driver =
  device :: Device
  openFiles :: "(string \<times> int) list"
  cwdIno :: int

definition newDriver :: "Device \<Rightarrow> Driver" where
  "newDriver d = \<lparr>device = d, openFiles = [], cwdIno = 0\<rparr>"

text \<open>
  Public methods are computations on the driver that may throw and, because of
  \<^verbatim>\<open>lookUp\<close>, may not return. Every definition names the driver as its last argument.
\<close>

type_synonym 'a call = "Driver \<Rightarrow> ((error + 'a) \<times> Driver) option"

definition bindO :: "'a call \<Rightarrow> ('a \<Rightarrow> 'b call) \<Rightarrow> 'b call" where
  "bindO m f st =
     (case m st of
        None \<Rightarrow> None
      | Some (Inl e, st1) \<Rightarrow> Some (Inl e, st1)
      | Some (Inr x, st1) \<Rightarrow> f x st1)"

definition onDevice :: "(Device, 'a) exn \<Rightarrow> 'a call" where
  "onDevice m st = (case m (device st) of (r, d1) \<Rightarrow> Some (r, st\<lparr>device := d1\<rparr>))"

definition pureO :: "error + 'a \<Rightarrow> 'a call" where
  "pureO r st = Some (r, st)"

text \<open>A method that reads the device and changes nothing.\<close>

definition readO :: "(Device \<Rightarrow> error + 'a) \<Rightarrow> 'a call" where
  "readO f st = Some (f (device st), st)"

text \<open>A statement whose value is dropped, followed by the rest of the method.\<close>

definition thenO :: "'a call \<Rightarrow> 'b call \<Rightarrow> 'b call" where
  "thenO m k st =
     (case m st of
        None \<Rightarrow> None
      | Some (Inl e, st1) \<Rightarrow> Some (Inl e, st1)
      | Some (Inr x, st1) \<Rightarrow> k st1)"

definition lookUp :: "settings \<Rightarrow> string \<Rightarrow> bool \<Rightarrow> INode call" where
  "lookUp c filePath resolveSymlink st =
     (case getDescriptor c (cwdIno st) (device st) of
        Inl e \<Rightarrow> Some (Inl e, st)
      | Inr baseDirectory \<Rightarrow>
          (case lookUpFrom c filePath resolveSymlink 0 baseDirectory (device st) of
             None \<Rightarrow> None
           | Some (Inl e) \<Rightarrow> Some (Inl e, st)
           | Some (Inr (inode, depth)) \<Rightarrow> Some (Inr inode, st)))"

text \<open>
  \<^verbatim>\<open>mkfs(n)\<close>: the metadata blocks are zeroed and marked, \<open>N\<close> and the root descriptor
  are written, and the root directory gets its two entries.
\<close>

definition zeroBlock :: "settings \<Rightarrow> int \<Rightarrow> (Device, unit) exn" where
  "zeroBlock c blockAddress d =
     writeBlock (Num blockAddress) (replicate (nat (BLOCK_SIZE c)) 0) d"

definition markBlock :: "settings \<Rightarrow> int \<Rightarrow> (Device, unit) exn" where
  "markBlock c blockIndex d = setBlockUnfree c (Num blockIndex) d"

definition addDotDot :: "settings \<Rightarrow> INode \<times> INode \<Rightarrow> (Device, unit) exn" where
  "addDotDot c roots d =
     (case addLink c (fst roots) None ''..'' d of
        (Inl e, d1) \<Rightarrow> (Inl e, d1)
      | (Inr r, d1) \<Rightarrow> (Inr (), d1))"

definition mkfs :: "settings \<Rightarrow> int \<Rightarrow> (Device, unit) exn" where
  "mkfs c n d =
     (let metadataLength = ceilDiv (BLOCK_COUNT c) 8 + 4 + n * INODE_SIZE c
      in if metadataLength < 0 then (Inl RangeError, d)
         else
           (let unfreeBlocks = ceilDiv metadataLength (BLOCK_SIZE c);
                root = \<lparr>ino = 0, type = DIRECTORY, size' = 0, refs = 0, straightLinks = [],
                        singleIndirect = Num (NAN_BLOCK_ADDRESS c),
                        doubleIndirect = Num (NAN_BLOCK_ADDRESS c)\<rparr>
            in thenM (forM [0..unfreeBlocks - 1] (zeroBlock c))
              (thenM (forM [0..unfreeBlocks - 1] (markBlock c))
              (thenM (setN c n)
              (thenM (updateDescriptor c root)
              (bindM (addLink c root None ''.'') (addDotDot c))))) d))"

definition link :: "settings \<Rightarrow> string \<Rightarrow> string \<Rightarrow> unit call" where
  "link c filePath1 filePath2 st =
     bindO (lookUp c filePath1 False) (\<lambda>file.
       if type file \<noteq> REGULAR then pureO (Inl InvalidPath)
       else bindO (lookUp c (getDirPath filePath2) False) (\<lambda>dir.
            thenO (onDevice (addLink c dir (Some file) (getFileName filePath2)))
              (pureO (Inr ())))) st"

definition unlink :: "settings \<Rightarrow> string \<Rightarrow> unit call" where
  "unlink c filePath st =
     bindO (lookUp c filePath False) (\<lambda>file.
       if type file = DIRECTORY then pureO (Inl InvalidPath)
       else bindO (lookUp c (getDirPath filePath) False) (\<lambda>dir.
            onDevice (unlink' c dir (getFileName filePath)))) st"

text \<open>
  The fields \<^verbatim>\<open>create\<close>, \<^verbatim>\<open>mkdir\<close> and \<^verbatim>\<open>symlink\<close> set on the unused descriptor
  they take.
\<close>

definition asNew :: "FileType \<Rightarrow> INode \<Rightarrow> INode" where
  "asNew t file0 =
     file0\<lparr>type := t, refs := 0, size' := 0, singleIndirect := Num 0, straightLinks := []\<rparr>"

definition createIn :: "settings \<Rightarrow> string \<Rightarrow> INode \<Rightarrow> INode \<Rightarrow> (Device, unit) exn" where
  "createIn c filename dir file d =
     (case updateDescriptor c file d of
        (Inl e, d1) \<Rightarrow> (Inl e, d1)
      | (Inr u, d1) \<Rightarrow>
          (case addLink c dir (Some file) filename d1 of
             (Inl e, d2) \<Rightarrow> (Inl e, d2)
           | (Inr r, d2) \<Rightarrow> (Inr (), d2)))"

definition create :: "settings \<Rightarrow> string \<Rightarrow> unit call" where
  "create c filePath st =
     bindO (lookUp c (getDirPath filePath) False) (\<lambda>dir.
       if type dir \<noteq> DIRECTORY then pureO (Inl InvalidPath)
       else bindO (readO (getUnusedDescriptor c)) (\<lambda>file0.
            onDevice (createIn c (getFileName filePath) dir (asNew REGULAR file0)))) st"

definition readDirectory :: "settings \<Rightarrow> string \<Rightarrow> Dentry list call" where
  "readDirectory c dirPath st =
     bindO (lookUp c dirPath False) (\<lambda>dir.
       if type dir \<noteq> DIRECTORY then pureO (Inl InvalidPath)
       else readO (readDirectory' c dir)) st"

text \<open>
  \<^verbatim>\<open>open\<close> maps a fresh identifier (\<^verbatim>\<open>uuidv4()\<close>) to the inode number; the identifier
  is an argument of the model.
\<close>

definition remember :: "string \<Rightarrow> int \<Rightarrow> string call" where
  "remember numericInode ino' st =
     Some (Inr numericInode,
           st\<lparr>openFiles := (numericInode, ino') #
                             filter (\<lambda>(k, v). k \<noteq> numericInode) (openFiles st)\<rparr>)"

definition open' :: "settings \<Rightarrow> string \<Rightarrow> string \<Rightarrow> string call" where
  "open' c filePath numericInode st =
     bindO (lookUp c filePath False) (\<lambda>file.
       if type file \<noteq> REGULAR then pureO (Inl InvalidPath)
       else remember numericInode (ino file)) st"

definition close :: "string \<Rightarrow> unit call" where
  "close numericInode st =
     Some (Inr (), st\<lparr>openFiles := filter (\<lambda>(k, v). k \<noteq> numericInode) (openFiles st)\<rparr>)"

text \<open>\<^verbatim>\<open>if (!ino)\<close>: the handle is unknown, or the inode number is 0.\<close>

definition openIno :: "string \<Rightarrow> int call" where
  "openIno numericInode st =
     (case map_of (openFiles st) numericInode of
        None \<Rightarrow> Some (Inl InvalidArgument, st)
      | Some ino' \<Rightarrow> if ino' = 0 then Some (Inl InvalidArgument, st) else Some (Inr ino', st))"

definition openFile :: "settings \<Rightarrow> string \<Rightarrow> INode call" where
  "openFile c numericInode st =
     bindO (openIno numericInode) (\<lambda>ino'. readO (getDescriptor c ino')) st"

definition read :: "settings \<Rightarrow> string \<Rightarrow> int \<Rightarrow> int \<Rightarrow> byte list call" where
  "read c numericInode offset sz st =
     bindO (openFile c numericInode) (\<lambda>file. readO (read' c file offset sz)) st"

text \<open>The public \<^verbatim>\<open>write\<close>; \<open>write\<close> and \<open>open\<close> are keywords of Isabelle.\<close>

definition writeFile :: "settings \<Rightarrow> string \<Rightarrow> int \<Rightarrow> byte list \<Rightarrow> unit call" where
  "writeFile c numericInode offset buffer st =
     bindO (openFile c numericInode) (\<lambda>file.
       thenO (onDevice (write' c file offset buffer)) (pureO (Inr ()))) st"

definition truncate :: "settings \<Rightarrow> string \<Rightarrow> int \<Rightarrow> unit call" where
  "truncate c filePath sz st =
     bindO (lookUp c filePath False) (\<lambda>file.
       if type file \<noteq> REGULAR then pureO (Inl InvalidPath)
       else thenO (onDevice (truncate' c file sz)) (pureO (Inr ()))) st"

text \<open>
  \<^verbatim>\<open>mkdir\<close> and \<^verbatim>\<open>symlink\<close> catch every exception, clean the new descriptor up when
  the exception is a FileAlreadyExist, and throw the exception again. \<^verbatim>\<open>_addLink\<close>
  throws FileAlreadyExist before it changes any object, so the handler sees the new
  descriptor as it was passed to the call.
\<close>

definition catchExist :: "(Device, unit) exn \<Rightarrow> (Device, 'a) exn \<Rightarrow> (Device, 'a) exn" where
  "catchExist handler m d =
     (case m d of
        (Inl FileAlreadyExist, d1) \<Rightarrow>
          (case handler d1 of
             (Inl e, d2) \<Rightarrow> (Inl e, d2)
           | (Inr u, d2) \<Rightarrow> (Inl FileAlreadyExist, d2))
      | r \<Rightarrow> r)"

definition cleanUp :: "settings \<Rightarrow> INode \<Rightarrow> (Device, unit) exn" where
  "cleanUp c newDir d = removeOrUpdate c (newDir\<lparr>refs := 0\<rparr>) d"

definition mkdirIn :: "settings \<Rightarrow> string \<Rightarrow> INode \<Rightarrow> INode \<Rightarrow> (Device, unit) exn" where
  "mkdirIn c dirName parentDir newDir d =
     (case updateDescriptor c newDir d of
        (Inl e, d1) \<Rightarrow> (Inl e, d1)
      | (Inr u, d1) \<Rightarrow>
          (case catchExist (cleanUp c newDir) (addLink c parentDir (Some newDir) dirName) d1 of
             (Inl e, d2) \<Rightarrow> (Inl e, d2)
           | (Inr (parentDir1, newDir1), d2) \<Rightarrow>
               (case catchExist (cleanUp c newDir1) (addLink c newDir1 None ''.'') d2 of
                  (Inl e, d3) \<Rightarrow> (Inl e, d3)
                | (Inr (newDir2, newDir3), d3) \<Rightarrow>
                    (case catchExist (cleanUp c newDir2)
                            (addLink c newDir2 (Some parentDir1) ''..'') d3 of
                       (Inl e, d4) \<Rightarrow> (Inl e, d4)
                     | (Inr r, d4) \<Rightarrow> (Inr (), d4)))))"

definition mkdir :: "settings \<Rightarrow> string \<Rightarrow> unit call" where
  "mkdir c dirPath st =
     bindO (lookUp c (getDirPath dirPath) False) (\<lambda>parentDir.
       if type parentDir \<noteq> DIRECTORY then pureO (Inl InvalidPath)
       else bindO (readO (getUnusedDescriptor c)) (\<lambda>newDir0.
            onDevice (mkdirIn c (getFileName dirPath) parentDir (asNew DIRECTORY newDir0)))) st"

definition rmdir :: "settings \<Rightarrow> string \<Rightarrow> unit call" where
  "rmdir c dirPath st =
     bindO (lookUp c dirPath False) (\<lambda>dir.
       if type dir \<noteq> DIRECTORY then pureO (Inl InvalidPath)
       else if refs dir > 2 then pureO (Inl (Error ''Dir is not empty''))
       else thenO (onDevice (unlink' c dir ''.''))
           (bindO (lookUp c dirPath False) (\<lambda>dir1.
            thenO (onDevice (unlink' c dir1 ''..''))
           (bindO (lookUp c (getDirPath dirPath) False) (\<lambda>parentDir.
            onDevice (unlink' c parentDir (getFileName dirPath))))))) st"




definition setCwd :: "INode \<Rightarrow> unit call" where
  "setCwd dir st = Some (Inr (), st\<lparr>cwdIno := ino dir\<rparr>)"

definition cd :: "settings \<Rightarrow> string \<Rightarrow> unit call" where
  "cd c dirPath st = bindO (lookUp c dirPath False) setCwd st"


section \<open>A configuration\<close>

text \<open>
  The values of the constants are not among the sources. The configuration below is one
  under which the model reproduces every expectation of the test suite of the
  repository (\<^verbatim>\<open>test/driver.test.js\<close>): blocks and descriptors of 64 bytes, 480 blocks,
  ten straight links, directory entries of 32 bytes, and 0 for \<open>NAN_BLOCK_ADDRESS\<close>, which
  the test of \<^verbatim>\<open>mkfs\<close> needs (it compares the decoded \<^verbatim>\<open>singleIndirect\<close> of the root, four
  zero bytes, with that constant). The statements about concrete runs below are made
  in this configuration, on the device the tests use.
\<close>

definition cfg :: settings where
  "cfg = \<lparr>BLOCK_SIZE = 64, BLOCK_COUNT = 480, INODE_SIZE = 64, INODE_INO_SIZE = 4,
           INODE_TYPE_SIZE = 2, INODE_REFS_SIZE = 2, INODE_SIZE_SIZE = 4,
           INODE_STRAIGHT_LINKS_COUNT = 10, ADDRESS_SIZE = 4, N_SIZE = 4, DENTRY_SIZE = 32,
           MAX_SYMLINK_DEPTH = 4, NAN_BLOCK_ADDRESS = 0, ZERO_BLOCK_ADDRESS = - 1,
           ADDRESSES_IN_BLOCK = 16\<rparr>"

text \<open>\<^verbatim>\<open>new Device(BLOCK_SIZE, BLOCK_COUNT)\<close>.\<close>

definition freshDevice :: Device where
  "freshDevice = newDevice (BLOCK_SIZE cfg) (BLOCK_COUNT cfg)"

text \<open>Encoding a value and decoding the bytes again.\<close>

definition roundTripInode :: "settings \<Rightarrow> INode \<Rightarrow> INode option" where
  "roundTripInode c inode =
     (case serializeInode c inode of Inl e \<Rightarrow> None | Inr bytes \<Rightarrow> deserializeInode c bytes)"

definition roundTripDentry :: "settings \<Rightarrow> Dentry \<Rightarrow> Dentry option" where
  "roundTripDentry c dentry =
     (case serializeDentry c dentry of
        Inl e \<Rightarrow> None
      | Inr bytes \<Rightarrow> Some (deserializeDentry c bytes))"

text \<open>A descriptor with ten straight links and two different indirect addresses.\<close>

definition sampleINode :: INode where
  "sampleINode =
     \<lparr>ino = 3, type = REGULAR, size' = 700, refs = 1,
      straightLinks = [Num 21, Num 22, Num 23, Num 24, Num 25, Num 26, Num 27, Num 28,
                       Num 29, Num 30],
      singleIndirect = Num 31, doubleIndirect = Num 32\<rparr>"

text \<open>A device whose bitmap has every bit set: the first 60 bytes of block 0.\<close>

definition fullDevice :: Device where
  "fullDevice = freshDevice\<lparr>memory := [(0, replicate 60 255 @ [0, 0, 0, 10])]\<rparr>"

section \<open>Runs of the driver\<close>

text \<open>
  The states of the driver in the runs the theorems below are about. Each is the driver
  as the call named in its definition leaves it, whether the call returns or throws.
  \<open>formatted\<close> is a driver on a fresh device after \<^verbatim>\<open>mkfs(10)\<close>.
\<close>

definition formatted :: Driver where
  "formatted = newDriver (snd (mkfs cfg 10 freshDevice))"

text \<open>After \<^verbatim>\<open>create("/f")\<close>.\<close>

definition withFile :: Driver where
  "withFile = snd (the (create cfg ''/f'' formatted))"

text \<open>After \<^verbatim>\<open>truncate("/f", 128)\<close>: the file is two blocks long and both are holes.\<close>

definition grown :: Driver where
  "grown = snd (the (truncate cfg ''/f'' 128 withFile))"

text \<open>
  After \<^verbatim>\<open>truncate("/f", 192)\<close> and \<^verbatim>\<open>open("/f")\<close>, with the handle \<^verbatim>\<open>h\<close>, and then
  after the write of 129 bytes at offset 1.
\<close>

definition opened :: Driver where
  "opened = snd (the (open' cfg ''/f'' ''h'' (snd (the (truncate cfg ''/f'' 192 withFile)))))"

definition written :: Driver where
  "written = snd (the (writeFile cfg ''h'' 1 (replicate 129 7) opened))"




text \<open>
  After \<^verbatim>\<open>open("/f")\<close>, \<^verbatim>\<open>unlink("/f")\<close> and \<^verbatim>\<open>mkdir("/d")\<close>, and then after a write
  of one byte through the handle of the unlinked file.
\<close>

definition withDir :: Driver where
  "withDir =
     snd (the (mkdir cfg ''/d''
       (snd (the (unlink cfg ''/f'' (snd (the (open' cfg ''/f'' ''h'' withFile))))))))"

definition scribbled :: Driver where
  "scribbled = snd (the (writeFile cfg ''h'' 0 [88] withDir))"


section \<open>Equations for evaluation\<close>

text \<open>
  \<^verbatim>\<open>subarray\<close> and \<^verbatim>\<open>slice\<close> with bounds that are not negative need no look at
  the length of the array: \<open>take\<close> and \<open>drop\<close> clamp by themselves.
\<close>

lemma subarray_code [code]:
  "subarray xs b e =
     (if 0 \<le> b \<and> 0 \<le> e then take (nat e - nat b) (drop (nat b) xs)
      else take (nat (relIndex (int (length xs)) e - relIndex (int (length xs)) b))
             (drop (nat (relIndex (int (length xs)) b)) xs))"
  by (auto simp: subarray_def relIndex_def Let_def min_def nat_diff_distrib')

lemma subarrayFrom_code [code]:
  "subarrayFrom xs b =
     (if 0 \<le> b then drop (nat b) xs else drop (nat (relIndex (int (length xs)) b)) xs)"
  by (auto simp: subarrayFrom_def relIndex_def min_def)

text \<open>
  The codec of integers on the values that fill the descriptors of a small file system:
  the bytes of a number from 0 to 127 are three zeros and the number, and four bytes
  that start with three zeros decode to the fourth.
\<close>

lemma serializeInt32_code [code]:
  "serializeInt32 v =
     (case v of
        Num x \<Rightarrow>
          if 0 \<le> x \<and> x < 128 then [0, 0, 0, x]
          else [toUint8 (sar (toInt32 x) 24), toUint8 (sar (shl (toInt32 x) 8) 24),
                toUint8 (sar (shl (toInt32 x) 16) 24), toUint8 (sar (shl (toInt32 x) 24) 24)]
      | _ \<Rightarrow> [0, 0, 0, 0])"
proof (cases v)
  case (Num x)
  show ?thesis
  proof (cases "0 \<le> x \<and> x < 128")
    case True
    then have "toInt32 x = x" "toInt32 (x * 256) = x * 256" "toInt32 (x * 65536) = x * 65536"
      "toInt32 (x * 16777216) = x * 16777216"
      by (simp_all add: toInt32_def)
    with True Num show ?thesis
      by (simp add: serializeInt32_def Let_def shl_def sar_def toUint8_def)
  next
    case False
    with Num show ?thesis by (auto simp: serializeInt32_def Let_def)
  qed
qed (simp_all add: serializeInt32_def Let_def shl_def sar_def toUint8_def toInt32_def)

lemma deserializeInt32_code [code]:
  "deserializeInt32 bytes =
     (case bytes of
        a # b # c # d # rest \<Rightarrow>
          if a = 0 \<and> b = 0 \<and> c = 0 then Num d
          else Num (shl a 24 + shl b 16 + shl c 8 + d)
      | _ \<Rightarrow> NaN)"
  by (auto simp: deserializeInt32_def shl_def toInt32_def split: list.splits)

lemma serializeInt16_code [code]:
  "serializeInt16 v =
     (case v of
        Num x \<Rightarrow>
          if 0 \<le> x \<and> x < 128 then [0, x]
          else [toUint8 (sar (toInt32 x) 8), toUint8 (sar (shl (toInt32 x) 8) 8)]
      | _ \<Rightarrow> [0, 0])"
proof (cases v)
  case (Num x)
  show ?thesis
  proof (cases "0 \<le> x \<and> x < 128")
    case True
    then have "toInt32 x = x" "toInt32 (x * 256) = x * 256"
      by (simp_all add: toInt32_def)
    with True Num show ?thesis
      by (simp add: serializeInt16_def Let_def shl_def sar_def toUint8_def)
  next
    case False
    with Num show ?thesis by (auto simp: serializeInt16_def Let_def)
  qed
qed (simp_all add: serializeInt16_def Let_def shl_def sar_def toUint8_def toInt32_def)

lemma deserializeInt16_code [code]:
  "deserializeInt16 bytes =
     (case bytes of
        a # b # rest \<Rightarrow> if a = 0 then Num b else Num (shl a 8 + b)
      | _ \<Rightarrow> NaN)"
  by (auto simp: deserializeInt16_def shl_def toInt32_def split: list.splits)

section \<open>The codec\<close>

text \<open>
  Claim C7 says that every field of a descriptor, the double indirect address in
  particular, comes back unchanged from decoding its encoding. The decoder reads the
  double indirect address from the bytes of the single indirect address, so whenever a
  descriptor is encoded and decoded, the two addresses of the result are equal,
  whatever they were before.
\<close>

theorem roundTripInode_doubleIndirect:
  "roundTripInode c inode = Some inode' \<Longrightarrow> doubleIndirect inode' = singleIndirect inode'"
  by (auto simp: roundTripInode_def deserializeInode_def Let_def
           split: sum.splits prod.splits jsnum.splits)

theorem roundTripInode_doubleIndirect_witness:
  "roundTripInode cfg sampleINode = Some (sampleINode\<lparr>doubleIndirect := Num 31\<rparr>) \<and>
   doubleIndirect (sampleINode\<lparr>doubleIndirect := Num 31\<rparr>) =
   singleIndirect (sampleINode\<lparr>doubleIndirect := Num 31\<rparr>)"
proof -
  have h: "roundTripInode cfg sampleINode = Some (sampleINode\<lparr>doubleIndirect := Num 31\<rparr>)"
    by code_simp
  from h roundTripInode_doubleIndirect [OF h] show ?thesis by (rule conjI)
qed

text \<open>
  Claim C8 says that a directory entry whose name fills the name field, 28 bytes here,
  is read back in full. The decoder cuts the name at \<^verbatim>\<open>indexOf(0)\<close>, which is \<open>-1\<close> for
  such a name, so the last character is lost.
\<close>

theorem roundTripDentry_full_name:
  "roundTripDentry cfg \<lparr>fileName = ''abcdefghijklmnopqrstuvwxyz01'', dentryIno = Num 1\<rparr> =
   Some \<lparr>fileName = ''abcdefghijklmnopqrstuvwxyz0'', dentryIno = Num 1\<rparr>"
  by code_simp

section \<open>The allocator\<close>

lemma find_full_byte:
  "find (\<lambda>bitIndex. (255::int) AND bitMask (int bitIndex) = 0) [0..<8] = None"
  by code_simp

lemma scanBitmap_full: "scanBitmap (replicate n 255) byteIndex = Undefined"
  by (induction n arbitrary: byteIndex) (simp_all add: find_full_byte)

text \<open>
  Claim C9 says that the search for a free block fails with NotEnoughMemory when every
  bit of the bitmap is set. \<^verbatim>\<open>_getFreeBlockAddress\<close> has no such branch: when every
  byte of the bitmap is 255 it returns \<^verbatim>\<open>undefined\<close>, a value and no exception.
\<close>

theorem getFreeBlockAddress_full:
  "readBitmap c d = replicate n 255 \<Longrightarrow> getFreeBlockAddress c d = Undefined"
  by (simp add: getFreeBlockAddress_def scanBitmap_full)

theorem getFreeBlockAddress_full_witness:
  "readBitmap cfg fullDevice = replicate 60 255 \<and>
   getFreeBlockAddress cfg fullDevice = Undefined"
proof -
  have h: "readBitmap cfg fullDevice = replicate 60 255" by code_simp
  from h getFreeBlockAddress_full [OF h] show ?thesis by (rule conjI)
qed

section \<open>Reading and writing\<close>

text \<open>
  Nothing that \<^verbatim>\<open>_read\<close> and \<^verbatim>\<open>_write\<close> call throws OutOfBounds, and nothing that
  \<^verbatim>\<open>_write\<close> calls changes the size of the inode object.
\<close>

lemma typedSet_noOOB [simp]: "typedSet target source off \<noteq> Inl OutOfBounds"
  by (simp add: typedSet_def)

lemma readLoop_noOOB [simp]:
  "readLoop c sz addrs buffer offset readBytes d \<noteq> Inl OutOfBounds"
proof (induction addrs arbitrary: buffer offset readBytes)
  case Nil
  show ?case by simp
next
  case (Cons a addrs)
  show ?case
    by (auto simp: Let_def Cons.IH split: sum.split)
qed

lemma ret_noOOB [simp]: "ret x d \<noteq> (Inl OutOfBounds, d')"
  by (simp add: ret_def)

lemma thenM_OOB:
  "thenM m k d = (Inl OutOfBounds, d') \<Longrightarrow>
   m d = (Inl OutOfBounds, d') \<or> (\<exists>d1. k d1 = (Inl OutOfBounds, d'))"
  by (auto simp: thenM_def split: prod.splits sum.splits)

lemma bindM_OOB:
  "bindM m f d = (Inl OutOfBounds, d') \<Longrightarrow>
   m d = (Inl OutOfBounds, d') \<or> (\<exists>x d1. f x d1 = (Inl OutOfBounds, d'))"
  by (auto simp: bindM_def split: prod.splits sum.splits)


lemma viewSet_noOOB [simp]: "viewSet view source off d \<noteq> (Inl OutOfBounds, d')"
  by (auto simp: viewSet_def split: sum.splits option.splits)

lemma writeBlock_noOOB [simp]: "writeBlock blockAddress block d \<noteq> (Inl OutOfBounds, d')"
  by (simp add: writeBlock_def Let_def)

lemma writeView_noOOB [simp]: "writeView blockAddress view d \<noteq> (Inl OutOfBounds, d')"
  by (simp add: writeView_def)

lemma viewUpdateByte_noOOB [simp]: "viewUpdateByte view i f d \<noteq> (Inl OutOfBounds, d')"
  by (auto simp: viewUpdateByte_def Let_def split: option.splits)

lemma setBlockUnfree_noOOB [simp]: "setBlockUnfree c blockIndex d \<noteq> (Inl OutOfBounds, d')"
  by (auto simp: setBlockUnfree_def Let_def dest!: thenM_OOB split: jsnum.splits)

lemma clearBlock_noOOB [simp]: "clearBlock c blockAddress d \<noteq> (Inl OutOfBounds, d')"
  by (simp add: clearBlock_def)

lemma serializeInode_noOOB [simp]: "serializeInode c inode \<noteq> Inl OutOfBounds"
  by (simp add: serializeInode_def Let_def)

lemma updateDescriptor_noOOB [simp]: "updateDescriptor c inode d \<noteq> (Inl OutOfBounds, d')"
  by (auto simp: updateDescriptor_def Let_def dest!: thenM_OOB split: sum.splits)



lemma storeInBlock_noOOB [simp]:
  "storeInBlock buffer blockAddress offset writenBytes d \<noteq> (Inl OutOfBounds, d')"
  by (auto simp: storeInBlock_def Let_def dest!: thenM_OOB)






section \<open>Runs on a formatted device\<close>

lemma mkfs_returns: "fst (mkfs cfg 10 freshDevice) = Inr ()"
  by code_simp

lemma mkfs_root:
  "getDescriptor cfg 0 (device formatted) =
   Inr \<lparr>ino = 0, type = DIRECTORY, size' = 2 * DENTRY_SIZE cfg, refs = 2,
        straightLinks = Num 11 # replicate 9 (Num (NAN_BLOCK_ADDRESS cfg)),
        singleIndirect = Num (NAN_BLOCK_ADDRESS cfg),
        doubleIndirect = Num (NAN_BLOCK_ADDRESS cfg)\<rparr>"
  by code_simp

text \<open>
  Claim C4 says that after \<^verbatim>\<open>mkfs(10)\<close> all straight links of the root descriptor are
  \<open>NAN_BLOCK_ADDRESS\<close>. The root directory holds two entries, so it owns a block: its
  first link is 11, the first block after the eleven blocks of metadata.
\<close>

theorem mkfs_root_links_counterexample:
  "\<exists>root. getDescriptor cfg 0 (device formatted) = Inr root \<and>
          straightLinks root \<noteq>
          replicate (nat (INODE_STRAIGHT_LINKS_COUNT cfg)) (Num (NAN_BLOCK_ADDRESS cfg))"
  by (rule exI, rule conjI, rule mkfs_root) code_simp

text \<open>
  Claim C4, amended: \<^verbatim>\<open>mkfs(10)\<close> returns, and the root descriptor it leaves has inode
  number 0, the type of a directory, two references, the size of two directory entries,
  the address 11 in its first straight link, \<open>NAN_BLOCK_ADDRESS\<close> in the other nine, and
  \<open>NAN_BLOCK_ADDRESS\<close> as its single and double indirect address.
\<close>

theorem mkfs_root_descriptor:
  "fst (mkfs cfg 10 freshDevice) = Inr () \<and>
   getDescriptor cfg 0 (device formatted) =
   Inr \<lparr>ino = 0, type = DIRECTORY, size' = 2 * DENTRY_SIZE cfg, refs = 2,
        straightLinks = Num 11 # replicate 9 (Num (NAN_BLOCK_ADDRESS cfg)),
        singleIndirect = Num (NAN_BLOCK_ADDRESS cfg),
        doubleIndirect = Num (NAN_BLOCK_ADDRESS cfg)\<rparr>"
  using mkfs_returns mkfs_root by (rule conjI)

lemma create_returns: "map_option fst (create cfg ''/f'' formatted) = Some (Inr ())"
  by code_simp

lemma grow_returns: "map_option fst (truncate cfg ''/f'' 128 withFile) = Some (Inr ())"
  by code_simp

lemma grown_descriptor:
  "getDescriptor cfg 1 (device grown) =
   Inr \<lparr>ino = 1, type = REGULAR, size' = 128, refs = 1,
        straightLinks = Num (ZERO_BLOCK_ADDRESS cfg) # Num (ZERO_BLOCK_ADDRESS cfg) #
                        replicate 8 (Num (NAN_BLOCK_ADDRESS cfg)),
        singleIndirect = Num (NAN_BLOCK_ADDRESS cfg),
        doubleIndirect = Num (NAN_BLOCK_ADDRESS cfg)\<rparr>"
  by code_simp

lemma shrink_throws: "map_option fst (truncate cfg ''/f'' 0 grown) = Some (Inl RangeError)"
  by code_simp

text \<open>
  Claim C5 says that a shrinking \<^verbatim>\<open>truncate\<close> frees only real blocks and merely erases
  the entries that are \<open>ZERO_BLOCK_ADDRESS\<close>. \<^verbatim>\<open>_removeLastBlocksFromINode\<close> passes every
  address it pops to \<^verbatim>\<open>_setBlockFree\<close>. For the address \<open>-1\<close> of a hole that method
  writes to block \<open>-1\<close> of the device, which throws a RangeError: after
  \<^verbatim>\<open>create("/f")\<close> and \<^verbatim>\<open>truncate("/f", 128)\<close>, which both return and leave a file of
  two holes, \<^verbatim>\<open>truncate("/f", 0)\<close> throws.
\<close>

theorem truncate_hole_throws:
  "map_option fst (create cfg ''/f'' formatted) = Some (Inr ()) \<and>
   map_option fst (truncate cfg ''/f'' 128 withFile) = Some (Inr ()) \<and>
   getDescriptor cfg 1 (device grown) =
   Inr \<lparr>ino = 1, type = REGULAR, size' = 128, refs = 1,
        straightLinks = Num (ZERO_BLOCK_ADDRESS cfg) # Num (ZERO_BLOCK_ADDRESS cfg) #
                        replicate 8 (Num (NAN_BLOCK_ADDRESS cfg)),
        singleIndirect = Num (NAN_BLOCK_ADDRESS cfg),
        doubleIndirect = Num (NAN_BLOCK_ADDRESS cfg)\<rparr> \<and>
   map_option fst (truncate cfg ''/f'' 0 grown) = Some (Inl RangeError)"
  using create_returns grow_returns grown_descriptor shrink_throws by (intro conjI)

lemma write_unaligned_returns:
  "map_option fst (writeFile cfg ''h'' 1 (replicate 129 7) opened) = Some (Inr ())"
  by code_simp

lemma read_unaligned:
  "map_option fst (read cfg ''h'' 1 129 written) = Some (Inr (replicate 128 7 @ [0]))"
  by code_simp

text \<open>
  Claim C1 says that a read gives back what a write at the same offset stored, also
  when the bytes span several blocks and start inside a block. The loops of
  \<^verbatim>\<open>_write\<close> and \<^verbatim>\<open>_read\<close> add the running total to \<open>offset\<close> in each round
  (\<^verbatim>\<open>offset += writenBytes\<close>), so from the third block on the place in the block is
  wrong. On a file of 192 bytes the write of 129 bytes of value 7 at offset 1 returns
  normally, and the read of 129 bytes at offset 1 then gives 128 bytes of value 7 and a
  zero.
\<close>

theorem read_after_unaligned_write:
  "map_option fst (writeFile cfg ''h'' 1 (replicate 129 7) opened) = Some (Inr ()) \<and>
   map_option fst (read cfg ''h'' 1 129 written) = Some (Inr (replicate 128 7 @ [0]))"
  using write_unaligned_returns read_unaligned by (rule conjI)





lemma mkdir_after_unlink_returns:
  "map_option fst
     (mkdir cfg ''/d'' (snd (the (unlink cfg ''/f'' (snd (the (open' cfg ''/f'' ''h'' withFile))))))) =
   Some (Inr ())"
  by code_simp

lemma stale_write_returns: "map_option fst (writeFile cfg ''h'' 0 [88] withDir) = Some (Inr ())"
  by code_simp

lemma directory_after_stale_write:
  "map_option fst (readDirectory cfg ''/d'' scribbled) =
   Some (Inr [\<lparr>fileName = ''X'', dentryIno = Num 1\<rparr>, \<lparr>fileName = ''..'', dentryIno = Num 0\<rparr>])"
  by code_simp

text \<open>
  Claim C6 says that after every successful operation the first two entries of every
  live directory are named \<open>.\<close> and \<open>..\<close>. \<^verbatim>\<open>write\<close> looks up the descriptor of the
  handle and never at its type. After \<^verbatim>\<open>create("/f")\<close>, \<^verbatim>\<open>open("/f")\<close> and
  \<^verbatim>\<open>unlink("/f")\<close>, \<^verbatim>\<open>mkdir("/d")\<close> returns and takes the freed descriptor 1 for the new
  directory; the write of the byte 88 at offset 0 through the old handle returns
  normally, and the first entry of \<^verbatim>\<open>/d\<close> is then named \<open>X\<close>.
\<close>

theorem stale_handle_breaks_directory:
  "map_option fst
     (mkdir cfg ''/d'' (snd (the (unlink cfg ''/f'' (snd (the (open' cfg ''/f'' ''h'' withFile))))))) =
   Some (Inr ()) \<and>
   map_option fst (writeFile cfg ''h'' 0 [88] withDir) = Some (Inr ()) \<and>
   map_option fst (readDirectory cfg ''/d'' scribbled) =
   Some (Inr [\<lparr>fileName = ''X'', dentryIno = Num 1\<rparr>, \<lparr>fileName = ''..'', dentryIno = Num 0\<rparr>])"
  using mkdir_after_unlink_returns stale_write_returns directory_after_stale_write
  by (intro conjI)





end
